theory Spec2Isabelle
  imports Complex_Main
begin

section \<open>Numbers\<close>

text \<open>
  The scripts compute with JavaScript numbers, the binary64 numbers of IEEE 754. Where a
  statement depends on the last bit of a result (the colour interpolation, whose values
  are compared with fixed colours), every arithmetic operation of the source is followed
  by \<open>fl\<close>, the rounding to the nearest binary64 number. Elsewhere numbers are real
  numbers and the arithmetic of the source is read exactly. Where the source can produce
  \<open>NaN\<close> (reading a property that an object does not have and computing with it),
  the model uses \<open>jsnum\<close>, a real number or \<open>NaN\<close>, with the propagation rules
  of JavaScript.
\<close>

datatype jsnum = Num real | NaN

fun jadd :: "jsnum \<Rightarrow> jsnum \<Rightarrow> jsnum" where
  "jadd (Num a) (Num b) = Num (a + b)"
| "jadd _ _ = NaN"

fun jsub :: "jsnum \<Rightarrow> jsnum \<Rightarrow> jsnum" where
  "jsub (Num a) (Num b) = Num (a - b)"
| "jsub _ _ = NaN"

fun jmul :: "jsnum \<Rightarrow> jsnum \<Rightarrow> jsnum" where
  "jmul (Num a) (Num b) = Num (a * b)"
| "jmul _ _ = NaN"

text \<open>\<open>Math.round\<close>: the nearest integer, a tie going up.\<close>

definition Math_round :: "real \<Rightarrow> int" where
  "Math_round x = \<lfloor>x + 1 / 2\<rfloor>"

text \<open>
  Rounding to binary64, to nearest with ties to even. \<open>rne\<close> rounds a real number
  to an integer that way. \<open>expo x\<close> is the exponent \<open>e\<close> for which \<open>|x|\<close> is
  at least 2 to the power \<open>e\<close> and less than 2 to the power \<open>e + 1\<close>, searched
  downwards from 1023 and not taken below \<open>-1022\<close>, the exponent that all subnormal
  numbers share. \<open>fl x\<close> is the multiple of 2 to the power \<open>expo x - 52\<close> nearest
  to \<open>x\<close>. A result beyond the largest binary64 number is \<open>Infinity\<close> in
  JavaScript and is not modelled; for a progress in \<open>[0, 1]\<close> the numbers rounded
  below are smaller than 4 in magnitude.
\<close>

definition rne :: "real \<Rightarrow> int" where
  "rne y =
     (let f = \<lfloor>y\<rfloor>; r = y - of_int f
      in if r < 1 / 2 then f else if 1 / 2 < r then f + 1
         else if even f then f else f + 1)"

fun find_exp :: "nat \<Rightarrow> real \<Rightarrow> int" where
  "find_exp 0 x = - 1022"
| "find_exp (Suc n) x =
     (if 2 powi (int (Suc n) - 1022) \<le> x then int (Suc n) - 1022 else find_exp n x)"

definition expo :: "real \<Rightarrow> int" where
  "expo x = find_exp 2045 \<bar>x\<bar>"

definition fl :: "real \<Rightarrow> real" where
  "fl x = of_int (rne (x / 2 powi (expo x - 52))) * 2 powi (expo x - 52)"

section \<open>The gemstone viewer: colour from scroll progress\<close>

text \<open>
  \<open>THREE.Color\<close> of Three.js r128 (the revision the repository's README names; the
  library itself is not part of the repository): three components \<open>r\<close>, \<open>g\<close>,
  \<open>b\<close>. \<open>new THREE.Color(hex)\<close> sets each component to its byte of \<open>hex\<close>
  divided by 255, \<open>copy\<close> takes the components of its argument, and
  \<open>a.lerp(c, alpha)\<close> is \<open>a.r += (c.r - a.r) * alpha\<close>, and likewise for \<open>g\<close>
  and \<open>b\<close>: a subtraction, a multiplication and an addition, each rounded.
\<close>

record color =
  col_r :: real
  col_g :: real
  col_b :: real

definition Color :: "nat \<Rightarrow> color" where
  "Color hex = \<lparr> col_r = fl (real ((hex div 65536) mod 256) / 255),
                 col_g = fl (real ((hex div 256) mod 256) / 255),
                 col_b = fl (real (hex mod 256) / 255) \<rparr>"

definition color_copy :: "color \<Rightarrow> color \<Rightarrow> color" where
  "color_copy this c = this\<lparr> col_r := col_r c, col_g := col_g c, col_b := col_b c \<rparr>"

definition lerp :: "color \<Rightarrow> color \<Rightarrow> real \<Rightarrow> color" where
  "lerp this c alpha =
     this\<lparr> col_r := fl (col_r this + fl (fl (col_r c - col_r this) * alpha)),
           col_g := fl (col_g this + fl (fl (col_g c - col_g this) * alpha)),
           col_b := fl (col_b this + fl (fl (col_b c - col_b this) * alpha)) \<rparr>"

definition crystalColor :: color where "crystalColor = Color 0xffffff"
definition rubyColor :: color where "rubyColor = Color 0xff1744"
definition sapphireColor :: color where "sapphireColor = Color 0x2979ff"

text \<open>\<open>ModelViewer.getGemColor\<close>; the fresh \<open>new THREE.Color()\<close> is white.\<close>

definition getGemColor :: "real \<Rightarrow> color" where
  "getGemColor progress =
     (let color = Color 0xffffff in
      if progress \<le> 0.5
      then (let t = fl (progress * 2) in lerp (color_copy color crystalColor) rubyColor t)
      else (let t = fl (fl (progress - 0.5) * 2) in
            lerp (color_copy color rubyColor) sapphireColor t))"

text \<open>
  The linear interpolation of the specification, written from its words: the point at
  parameter \<open>t\<close> on the segment from \<open>a\<close> to \<open>c\<close>, component by component,
  in exact arithmetic; and the colour the specification gives to a progress value.
\<close>

definition mix :: "real \<Rightarrow> real \<Rightarrow> real \<Rightarrow> real" where
  "mix a c t = (1 - t) * a + t * c"

definition spec_lerp :: "color \<Rightarrow> color \<Rightarrow> real \<Rightarrow> color" where
  "spec_lerp a c t = \<lparr> col_r = mix (col_r a) (col_r c) t,
                       col_g = mix (col_g a) (col_g c) t,
                       col_b = mix (col_b a) (col_b c) t \<rparr>"

definition ideal_gem :: "real \<Rightarrow> color" where
  "ideal_gem p =
     (if p \<le> 1 / 2 then spec_lerp (Color 0xffffff) (Color 0xff1744) (2 * p)
      else spec_lerp (Color 0xff1744) (Color 0x2979ff) (2 * (p - 1 / 2)))"

text \<open>A colour whose components lie between 0 and 1.\<close>

definition unit_color :: "color \<Rightarrow> bool" where
  "unit_color c = (0 \<le> col_r c \<and> col_r c \<le> 1 \<and> 0 \<le> col_g c \<and> col_g c \<le> 1
                   \<and> 0 \<le> col_b c \<and> col_b c \<le> 1)"

text \<open>
  The viewer's state that the wheel listener touches: the scroll progress, the colours
  of the stored gem materials, and the indicator element \<open>#gem-state-indicator\<close>
  (absent from the page: \<open>None\<close>) with its text and its \<open>rgb(...)\<close> colour.
\<close>

record indicator =
  textContent :: string
  style_color :: "int \<times> int \<times> int"

record gem_viewer =
  scrollProgress :: real
  gemMaterials :: "color list"
  gem_indicator :: "indicator option"

record wheel_event =
  shiftKey :: bool
  deltaY :: real

definition updateColorIndicator :: "real \<Rightarrow> gem_viewer \<Rightarrow> gem_viewer" where
  "updateColorIndicator progress v =
     (case gem_indicator v of
        None \<Rightarrow> v
      | Some ind \<Rightarrow>
          (let stateName = (if progress < 0.25 then ''Crystal''
                            else if progress < 0.75 then ''Ruby'' else ''Sapphire'');
               color = getGemColor progress
           in v\<lparr> gem_indicator := Some (ind\<lparr> textContent := stateName,
                    style_color := (Math_round (col_r color * 255),
                                    Math_round (col_g color * 255),
                                    Math_round (col_b color * 255)) \<rparr>) \<rparr>))"

definition updateGemHue :: "real \<Rightarrow> gem_viewer \<Rightarrow> gem_viewer" where
  "updateGemHue progress v =
     (let color = getGemColor progress in
      updateColorIndicator progress
        (v\<lparr> gemMaterials := map (\<lambda>material. color_copy material color) (gemMaterials v) \<rparr>))"

text \<open>The listener of \<open>wheel\<close> on \<open>#canvas-container\<close>.\<close>

definition gem_on_wheel :: "gem_viewer \<Rightarrow> wheel_event \<Rightarrow> gem_viewer" where
  "gem_on_wheel v e =
     (if shiftKey e then
        (let delta = (if deltaY e > 0 then 0.02 else - 0.02);
             v' = v\<lparr> scrollProgress := max 0 (min 1 (scrollProgress v + delta)) \<rparr>
         in updateGemHue (scrollProgress v') v')
      else v)"

text \<open>The constructor's state, before any material is created.\<close>

definition gem_viewer_new :: "indicator option \<Rightarrow> gem_viewer" where
  "gem_viewer_new ind = \<lparr> scrollProgress = 0, gemMaterials = [], gem_indicator = ind \<rparr>"

text \<open>\<open>createGemMaterial(hue)\<close>: a material of the colour for \<open>hue\<close>, stored.\<close>

definition createGemMaterial :: "real \<Rightarrow> gem_viewer \<Rightarrow> gem_viewer" where
  "createGemMaterial hue v = v\<lparr> gemMaterials := gemMaterials v @ [getGemColor hue] \<rparr>"

datatype gem_event = GemWheel wheel_event | GemCreateMaterial

fun gem_step :: "gem_viewer \<Rightarrow> gem_event \<Rightarrow> gem_viewer" where
  "gem_step v (GemWheel e) = gem_on_wheel v e"
| "gem_step v GemCreateMaterial = createGemMaterial (scrollProgress v) v"

section \<open>The iridescence viewer: film thickness\<close>

text \<open>
  \<open>ThinFilmFresnelMap(filmThickness, refractiveIndexFilm, refractiveIndexBase, size)\<close>
  is a texture class from outside the repository; the viewer only constructs it and
  assigns its \<open>filmThickness\<close>. A material keeps its map in \<open>userData.fresnelMap\<close>
  (\<open>None\<close>: the property is not set).
\<close>

record fresnel_map =
  fm_filmThickness :: real
  fm_refractiveIndexFilm :: real
  fm_refractiveIndexBase :: real
  fm_size :: nat

record ir_material =
  userData_fresnelMap :: "fresnel_map option"

text \<open>
  The viewer's film thickness, its stored materials, and the number shown by
  \<open>#gem-state-indicator\<close> before the suffix \<open>nm\<close> (\<open>None\<close>: nothing written yet).
  \<open>ir_has_indicator\<close> says whether the page has that element.
\<close>

record ir_viewer =
  filmThickness :: real
  iridescenceMaterials :: "ir_material list"
  ir_has_indicator :: bool
  ir_indicator_nm :: "int option"

definition ThinFilmFresnelMap :: "real \<Rightarrow> real \<Rightarrow> real \<Rightarrow> nat \<Rightarrow> fresnel_map" where
  "ThinFilmFresnelMap thickness nFilm nBase sz =
     \<lparr> fm_filmThickness = thickness, fm_refractiveIndexFilm = nFilm,
       fm_refractiveIndexBase = nBase, fm_size = sz \<rparr>"

definition createIridescenceMaterial :: "real \<Rightarrow> ir_viewer \<Rightarrow> ir_viewer" where
  "createIridescenceMaterial thickness v =
     (let fresnelMap = ThinFilmFresnelMap thickness 2.0 3.0 64;
          material = \<lparr> userData_fresnelMap = Some fresnelMap \<rparr>
      in v\<lparr> iridescenceMaterials := iridescenceMaterials v @ [material] \<rparr>)"

definition updateThicknessIndicator :: "real \<Rightarrow> ir_viewer \<Rightarrow> ir_viewer" where
  "updateThicknessIndicator thickness v =
     (if ir_has_indicator v then v\<lparr> ir_indicator_nm := Some (Math_round thickness) \<rparr> else v)"

definition updateFilmThickness :: "real \<Rightarrow> ir_viewer \<Rightarrow> ir_viewer" where
  "updateFilmThickness thickness v =
     updateThicknessIndicator thickness
       (v\<lparr> filmThickness := thickness,
            iridescenceMaterials :=
              map (\<lambda>material.
                     case userData_fresnelMap material of
                       Some fresnelMap \<Rightarrow>
                         material\<lparr> userData_fresnelMap :=
                           Some (fresnelMap\<lparr> fm_filmThickness := thickness \<rparr>) \<rparr>
                     | None \<Rightarrow> material)
                  (iridescenceMaterials v) \<rparr>)"

text \<open>The listener of \<open>wheel\<close> on \<open>#canvas-container\<close>.\<close>

definition ir_on_wheel :: "ir_viewer \<Rightarrow> wheel_event \<Rightarrow> ir_viewer" where
  "ir_on_wheel v e =
     (if shiftKey e then
        (let delta = (if deltaY e > 0 then 20 else - 20);
             v' = v\<lparr> filmThickness := max 200 (min 1000 (filmThickness v + delta)) \<rparr>
         in updateFilmThickness (filmThickness v') v')
      else v)"

definition ir_viewer_new :: "bool \<Rightarrow> ir_viewer" where
  "ir_viewer_new has_ind =
     \<lparr> filmThickness = 380, iridescenceMaterials = [], ir_has_indicator = has_ind,
       ir_indicator_nm = None \<rparr>"

text \<open>
  What happens to the viewer after construction: wheel events, and materials created
  while a model or the placeholder is set up (always with the current thickness).
\<close>

datatype ir_event = IrWheel wheel_event | IrCreateMaterial

fun ir_step :: "ir_viewer \<Rightarrow> ir_event \<Rightarrow> ir_viewer" where
  "ir_step v (IrWheel e) = ir_on_wheel v e"
| "ir_step v IrCreateMaterial = createIridescenceMaterial (filmThickness v) v"

text \<open>A stored material that carries a fresnel map.\<close>

definition has_map :: "ir_material \<Rightarrow> bool" where
  "has_map m = (userData_fresnelMap m \<noteq> None)"

section \<open>The animation controller\<close>

text \<open>
  The objects the controller moves are Three.js objects (r128). A \<open>THREE.Vector3\<close>
  holds its components in the own properties \<open>x\<close>, \<open>y\<close>, \<open>z\<close>. A
  \<open>THREE.Euler\<close> holds them in the own properties \<open>_x\<close>, \<open>_y\<close>, \<open>_z\<close>
  (fields \<open>e_x\<close>, \<open>e_y\<close>, \<open>e_z\<close> below); its \<open>x\<close>, \<open>y\<close>, \<open>z\<close> are
  accessors on the prototype that read and write those fields.
\<close>

record vector3 =
  vx :: jsnum
  vy :: jsnum
  vz :: jsnum

record euler =
  e_x :: jsnum
  e_y :: jsnum
  e_z :: jsnum

record object3d =
  position :: vector3
  rotation :: euler
  scale :: vector3

text \<open>
  An object spread \<open>{ ...o }\<close> copies the own enumerable properties of \<open>o\<close> and
  nothing from its prototype. The copy is an association list from property names to
  numbers (an Euler's \<open>_order\<close> and change callback are not numbers and are never read
  by the tween; they are left out). Reading a property the copy does not have gives
  \<open>undefined\<close>, and \<open>undefined\<close> in arithmetic is \<open>NaN\<close>.
\<close>

type_synonym snapshot = "(string \<times> jsnum) list"

definition spread_vector3 :: "vector3 \<Rightarrow> snapshot" where
  "spread_vector3 v = [(''x'', vx v), (''y'', vy v), (''z'', vz v)]"

definition spread_euler :: "euler \<Rightarrow> snapshot" where
  "spread_euler e = [(''_x'', e_x e), (''_y'', e_y e), (''_z'', e_z e)]"

definition snap_prop :: "snapshot \<Rightarrow> string \<Rightarrow> jsnum" where
  "snap_prop s k = (case map_of s k of Some n \<Rightarrow> n | None \<Rightarrow> NaN)"

text \<open>
  The \<open>target\<close> argument of \<open>animateModelTo\<close>: an object literal whose properties
  may be missing (\<open>None\<close>).
\<close>

record tween_target =
  t_position :: "(real \<times> real \<times> real) option"
  t_rotation :: "(real \<times> real \<times> real) option"
  t_scale :: "real option"
  t_duration :: "real option"

text \<open>The easing expression of \<open>animateModelTo\<close>.\<close>

definition eased :: "real \<Rightarrow> real" where
  "eased progress =
     (if progress < 0.5 then 2 * progress * progress
      else 1 - (- 2 * progress + 2)\<^sup>2 / 2)"

text \<open>
  What the closure \<open>animate\<close> captures when \<open>animateModelTo\<close> is entered:
  the three snapshots, the start time, the duration (\<open>target.duration || 1000\<close>) and
  the target.
\<close>

record tween =
  startPos :: snapshot
  startRot :: snapshot
  startScale :: jsnum
  startTime :: real
  duration :: real
  target :: tween_target

definition tween_capture :: "object3d \<Rightarrow> tween_target \<Rightarrow> real \<Rightarrow> tween" where
  "tween_capture model tgt now =
     \<lparr> startPos = spread_vector3 (position model),
       startRot = spread_euler (rotation model),
       startScale = vx (scale model),
       startTime = now,
       duration = (case t_duration tgt of
                     Some d \<Rightarrow> if d \<noteq> 0 then d else 1000
                   | None \<Rightarrow> 1000),
       target = tgt \<rparr>"

definition tween_progress :: "tween \<Rightarrow> real \<Rightarrow> real" where
  "tween_progress tw now = min ((now - startTime tw) / duration tw) 1"

definition blend :: "jsnum \<Rightarrow> real \<Rightarrow> real \<Rightarrow> jsnum" where
  "blend start goal k = jadd start (jmul (jsub (Num goal) start) (Num k))"

text \<open>
  One run of \<open>animate\<close> at clock reading \<open>now\<close>: the model after it, and whether
  another frame was requested (\<open>progress < 1\<close>).
\<close>

definition tween_frame :: "tween \<Rightarrow> real \<Rightarrow> object3d \<Rightarrow> object3d \<times> bool" where
  "tween_frame tw now model =
     (let progress = tween_progress tw now;
          k = eased progress;
          m1 = (case t_position (target tw) of
                  Some (tx, ty, tz) \<Rightarrow>
                    model\<lparr> position :=
                      \<lparr> vx = blend (snap_prop (startPos tw) ''x'') tx k,
                        vy = blend (snap_prop (startPos tw) ''y'') ty k,
                        vz = blend (snap_prop (startPos tw) ''z'') tz k \<rparr> \<rparr>
                | None \<Rightarrow> model);
          m2 = (case t_rotation (target tw) of
                  Some (tx, ty, tz) \<Rightarrow>
                    m1\<lparr> rotation :=
                      \<lparr> e_x = blend (snap_prop (startRot tw) ''x'') tx k,
                        e_y = blend (snap_prop (startRot tw) ''y'') ty k,
                        e_z = blend (snap_prop (startRot tw) ''z'') tz k \<rparr> \<rparr>
                | None \<Rightarrow> m1);
          m3 = (case t_scale (target tw) of
                  Some ts \<Rightarrow>
                    if ts \<noteq> 0
                    then (let s = blend (startScale tw) ts k
                          in m2\<lparr> scale := \<lparr> vx = s, vy = s, vz = s \<rparr> \<rparr>)
                    else m2
                | None \<Rightarrow> m2)
      in (m3, progress < 1))"

text \<open>
  The state the controller works on: the current section, the objects registered with
  the model loader under their names (\<open>modelLoader.models[name].object\<close>; the name
  stands for the reference to the object), the \<open>animate\<close> closures waiting for the
  next animation frame together with the object each one moves, and the console.
\<close>

record controller =
  currentSection :: string
  models :: "string \<rightharpoonup> object3d"
  running :: "(string \<times> tween) list"
  console_log :: "string list"

text \<open>
  \<open>ModelLoader.createGeometry(type, name, options)\<close>, as far as the pose goes: a new
  mesh sits at the origin, unrotated, at scale 1, and the options that are given move it
  (\<open>options.position.x || 0\<close> is \<open>options.position.x\<close> for a real number).
\<close>

record geometry_options =
  o_position :: "(real \<times> real \<times> real) option"
  o_scale :: "real option"
  o_rotation :: "(real \<times> real \<times> real) option"

definition new_mesh :: object3d where
  "new_mesh = \<lparr> position = \<lparr> vx = Num 0, vy = Num 0, vz = Num 0 \<rparr>,
                rotation = \<lparr> e_x = Num 0, e_y = Num 0, e_z = Num 0 \<rparr>,
                scale = \<lparr> vx = Num 1, vy = Num 1, vz = Num 1 \<rparr> \<rparr>"

definition createGeometry :: "string \<Rightarrow> geometry_options \<Rightarrow> controller \<Rightarrow> controller" where
  "createGeometry name options c =
     (let mesh = new_mesh;
          m1 = (case o_position options of
                  Some (x, y, z) \<Rightarrow> mesh\<lparr> position := \<lparr> vx = Num x, vy = Num y, vz = Num z \<rparr> \<rparr>
                | None \<Rightarrow> mesh);
          m2 = (case o_scale options of
                  Some s \<Rightarrow> if s \<noteq> 0 then m1\<lparr> scale := \<lparr> vx = Num s, vy = Num s, vz = Num s \<rparr> \<rparr>
                            else m1
                | None \<Rightarrow> m1);
          m3 = (case o_rotation options of
                  Some (x, y, z) \<Rightarrow> m2\<lparr> rotation := \<lparr> e_x = Num x, e_y = Num y, e_z = Num z \<rparr> \<rparr>
                | None \<Rightarrow> m2)
      in c\<lparr> models := (models c)(name \<mapsto> m3) \<rparr>)"

text \<open>
  \<open>getModel(name)\<close> is \<open>this.models[name] || null\<close> on a plain object. The
  lookup finds an entry registered under the name; and otherwise what the name inherits:
  a method of \<open>Object.prototype\<close> or, under \<open>__proto__\<close>, that prototype itself,
  none of which is an entry (its \<open>object\<close> is \<open>undefined\<close>). An assignment to
  \<open>this.models['__proto__']\<close> replaces the prototype by the entry instead of adding a
  property: the entry is then found under \<open>__proto__\<close>, and its mesh, which is not
  an entry, under \<open>object\<close>. The store \<open>models\<close> keeps this entry under the name
  \<open>__proto__\<close> like the others.
\<close>

definition Object_prototype_keys :: "string list" where
  "Object_prototype_keys =
     [''constructor'', ''__defineGetter__'', ''__defineSetter__'', ''hasOwnProperty'',
      ''__lookupGetter__'', ''__lookupSetter__'', ''isPrototypeOf'',
      ''propertyIsEnumerable'', ''toString'', ''valueOf'', ''toLocaleString'']"

datatype lookup = Entry string | NotEntry | Null

definition getModel :: "controller \<Rightarrow> string \<Rightarrow> lookup" where
  "getModel c name =
     (if models c name \<noteq> None then Entry name
      else if name = ''__proto__'' then NotEntry
      else if name = ''object'' \<and> models c ''__proto__'' \<noteq> None then NotEntry
      else if name \<in> set Object_prototype_keys then NotEntry
      else Null)"

text \<open>
  \<open>animateModelTo(model, target)\<close>. The clock is read on entry (\<open>t0\<close>) and again
  by the first run of \<open>animate\<close> (\<open>t1\<close>), which happens before the method returns.
\<close>

definition animateModelTo ::
  "string option \<Rightarrow> tween_target \<Rightarrow> real \<Rightarrow> real \<Rightarrow> controller \<Rightarrow> controller" where
  "animateModelTo model tgt t0 t1 c =
     (case model of
        None \<Rightarrow> c
      | Some ref \<Rightarrow>
          (case models c ref of
             None \<Rightarrow> c
           | Some m \<Rightarrow>
               (let tw = tween_capture m tgt t0;
                    r = tween_frame tw t1 m
                in c\<lparr> models := (models c)(ref \<mapsto> fst r),
                      running := running c @ (if snd r then [(ref, tw)] else []) \<rparr>)))"

definition home_target :: tween_target where
  "home_target = \<lparr> t_position = Some (0, 0, 0), t_rotation = Some (0, 0, 0),
                    t_scale = Some 1.5, t_duration = Some 1000 \<rparr>"

definition about_target :: tween_target where
  "about_target = \<lparr> t_position = Some (2, 0, - 2), t_rotation = Some (0.5, 0.5, 0),
                     t_scale = Some 1, t_duration = Some 1000 \<rparr>"

definition projects_target :: tween_target where
  "projects_target = \<lparr> t_position = Some (- 2, 1, - 1), t_rotation = Some (0, 1, 0),
                        t_scale = Some 1, t_duration = Some 1000 \<rparr>"

definition contact_target :: tween_target where
  "contact_target = \<lparr> t_position = Some (0, - 1, - 3), t_rotation = Some (0, 0, 0.5),
                       t_scale = Some 0.8, t_duration = Some 1000 \<rparr>"

definition animateHome :: "real \<Rightarrow> real \<Rightarrow> controller \<Rightarrow> controller" where
  "animateHome t0 t1 c =
     (case getModel c ''mainTorus'' of
        Entry mainModel \<Rightarrow> animateModelTo (Some mainModel) home_target t0 t1 c
      | NotEntry \<Rightarrow> animateModelTo None home_target t0 t1 c
      | Null \<Rightarrow> c)"

definition animateAbout :: "real \<Rightarrow> real \<Rightarrow> controller \<Rightarrow> controller" where
  "animateAbout t0 t1 c =
     (case getModel c ''mainTorus'' of
        Entry mainModel \<Rightarrow> animateModelTo (Some mainModel) about_target t0 t1 c
      | NotEntry \<Rightarrow> animateModelTo None about_target t0 t1 c
      | Null \<Rightarrow> c)"

definition animateProjects :: "real \<Rightarrow> real \<Rightarrow> controller \<Rightarrow> controller" where
  "animateProjects t0 t1 c =
     (case getModel c ''mainTorus'' of
        Entry mainModel \<Rightarrow> animateModelTo (Some mainModel) projects_target t0 t1 c
      | NotEntry \<Rightarrow> animateModelTo None projects_target t0 t1 c
      | Null \<Rightarrow> c)"

definition animateContact :: "real \<Rightarrow> real \<Rightarrow> controller \<Rightarrow> controller" where
  "animateContact t0 t1 c =
     (case getModel c ''mainTorus'' of
        Entry mainModel \<Rightarrow> animateModelTo (Some mainModel) contact_target t0 t1 c
      | NotEntry \<Rightarrow> animateModelTo None contact_target t0 t1 c
      | Null \<Rightarrow> c)"

definition onSectionChange :: "string \<Rightarrow> real \<Rightarrow> real \<Rightarrow> controller \<Rightarrow> controller" where
  "onSectionChange sectionId t0 t1 c =
     (let c1 = c\<lparr> currentSection := sectionId,
                  console_log := console_log c @ [''Section changed to: '' @ sectionId] \<rparr>
      in if sectionId = ''home'' then animateHome t0 t1 c1
         else if sectionId = ''about'' then animateAbout t0 t1 c1
         else if sectionId = ''projects'' then animateProjects t0 t1 c1
         else if sectionId = ''contact'' then animateContact t0 t1 c1
         else c1)"

text \<open>
  The controller as the scripts set it up: the loader has registered the torus
  \<open>mainTorus\<close> at the origin with scale 1.5, and the current section is \<open>home\<close>.
\<close>

definition controller_new :: controller where
  "controller_new =
     createGeometry ''mainTorus''
       \<lparr> o_position = Some (0, 0, 0), o_scale = Some 1.5, o_rotation = None \<rparr>
       \<lparr> currentSection = ''home'', models = Map.empty, running = [], console_log = [] \<rparr>"

text \<open>The torus as \<open>controller_new\<close> registers it.\<close>

definition torus0 :: object3d where
  "torus0 = \<lparr> position = \<lparr> vx = Num 0, vy = Num 0, vz = Num 0 \<rparr>,
              rotation = \<lparr> e_x = Num 0, e_y = Num 0, e_z = Num 0 \<rparr>,
              scale = \<lparr> vx = Num 1.5, vy = Num 1.5, vz = Num 1.5 \<rparr> \<rparr>"

section \<open>The page script: navigation and contact form\<close>

text \<open>
  An element's \<open>classList\<close> is a set of class names. Elements that
  \<open>querySelector\<close> or \<open>getElementById\<close> may fail to find are optional:
  \<open>None\<close> is \<open>null\<close>, and using a property of \<open>null\<close> throws a
  \<open>TypeError\<close>, which ends the handler and keeps what it has changed so far.
\<close>

type_synonym classList = "string set"

definition classList_add :: "string \<Rightarrow> classList \<Rightarrow> classList" where
  "classList_add c cl = insert c cl"

definition classList_remove :: "string \<Rightarrow> classList \<Rightarrow> classList" where
  "classList_remove c cl = cl - {c}"

definition classList_toggle :: "string \<Rightarrow> classList \<Rightarrow> classList" where
  "classList_toggle c cl = (if c \<in> cl then cl - {c} else insert c cl)"

datatype js_error = TypeError

text \<open>
  A nav link (\<open>.nav-link\<close>) with its \<open>href\<close> attribute (\<open>None\<close>: no such
  attribute) and classes; a section (\<open>.section\<close>) with its \<open>id\<close> attribute and layout
  numbers; the page with the burger (\<open>.burger\<close>), the menu (\<open>.nav-links\<close>), the nav
  links and sections in document order, and the bar \<open>#main-nav\<close>.
\<close>

record nav_link =
  href :: "string option"
  link_classes :: classList

record section_el =
  sec_id :: "string option"
  offsetTop :: real
  clientHeight :: real

record page =
  burger :: "classList option"
  nav :: "classList option"
  navLinks :: "nav_link list"
  sections :: "section_el list"
  main_nav :: "classList option"

text \<open>
  The click listener of the burger. It is registered only when the burger exists; a
  page without a burger has nothing to click.
\<close>

definition burger_click :: "page \<Rightarrow> page \<times> js_error option" where
  "burger_click p =
     (case burger p of
        None \<Rightarrow> (p, None)
      | Some b \<Rightarrow>
          (case nav p of
             None \<Rightarrow> (p, Some TypeError)
           | Some n \<Rightarrow>
               (p\<lparr> nav := Some (classList_toggle ''active'' n),
                    burger := Some (classList_toggle ''toggle'' b) \<rparr>, None)))"

text \<open>The click listener of a nav link.\<close>

definition link_click :: "page \<Rightarrow> page \<times> js_error option" where
  "link_click p =
     (case nav p of
        None \<Rightarrow> (p, Some TypeError)
      | Some n \<Rightarrow>
          (let p1 = p\<lparr> nav := Some (classList_remove ''active'' n) \<rparr>
           in case burger p1 of
                None \<Rightarrow> (p1, Some TypeError)
              | Some b \<Rightarrow> (p1\<lparr> burger := Some (classList_remove ''toggle'' b) \<rparr>, None)))"

text \<open>
  The scroll listener. \<open>current\<close> is a string or \<open>null\<close> (\<open>getAttribute\<close> of a
  missing attribute); the template literal prints \<open>null\<close> as the text \<open>null\<close>.
\<close>

record window =
  pageYOffset :: real
  scrollY :: real

definition template_hash :: "string option \<Rightarrow> string" where
  "template_hash current = ''#'' @ (case current of Some s \<Rightarrow> s | None \<Rightarrow> ''null'')"

definition scroll_current :: "window \<Rightarrow> section_el list \<Rightarrow> string option" where
  "scroll_current w secs =
     foldl (\<lambda>current section.
              if pageYOffset w \<ge> offsetTop section - 200 then sec_id section else current)
           (Some '''') secs"

definition scroll_link :: "string option \<Rightarrow> nav_link \<Rightarrow> nav_link" where
  "scroll_link current link =
     (let l1 = link\<lparr> link_classes := classList_remove ''active'' (link_classes link) \<rparr>
      in if href l1 = Some (template_hash current)
         then l1\<lparr> link_classes := classList_add ''active'' (link_classes l1) \<rparr>
         else l1)"

definition on_scroll :: "window \<Rightarrow> page \<Rightarrow> page \<times> js_error option" where
  "on_scroll w p =
     (let current = scroll_current w (sections p);
          p1 = p\<lparr> navLinks := map (scroll_link current) (navLinks p) \<rparr>
      in case main_nav p1 of
           None \<Rightarrow> (p1, Some TypeError)
         | Some cl \<Rightarrow>
             (if scrollY w > 100
              then (p1\<lparr> main_nav := Some (classList_add ''scrolled'' cl) \<rparr>, None)
              else (p1\<lparr> main_nav := Some (classList_remove ''scrolled'' cl) \<rparr>, None)))"

text \<open>
  The specification's reading of the section a scroll position selects: the last
  section, in document order, with \<open>pageYOffset \<ge> offsetTop - 200\<close>.
\<close>

definition reached :: "window \<Rightarrow> section_el \<Rightarrow> bool" where
  "reached w s = (pageYOffset w \<ge> offsetTop s - 200)"

definition last_reached :: "window \<Rightarrow> section_el list \<Rightarrow> section_el option" where
  "last_reached w secs =
     (case filter (reached w) secs of [] \<Rightarrow> None | xs \<Rightarrow> Some (last xs))"

text \<open>
  The contact form. A field has its current and its default value and may or may not
  belong to the form \<open>.contact-form\<close>; \<open>reset()\<close> gives every field of the form its
  default value back. The fields \<open>#name\<close>, \<open>#email\<close>, \<open>#message\<close> are looked up
  in the document and may be missing.
\<close>

record input_el =
  el_value :: string
  el_defaultValue :: string
  el_in_form :: bool

record form_page =
  name_input :: "input_el option"
  email_input :: "input_el option"
  message_input :: "input_el option"

text \<open>
  What a handler does to the world outside the page's elements, in order. A network
  request (\<open>fetch\<close>, \<open>XMLHttpRequest\<close>, a form submission the browser performs) would
  be a \<open>NetworkRequest\<close>.
\<close>

datatype effect =
    PreventDefault
  | ConsoleLog string "string \<times> string \<times> string"
  | Alert string
  | FormReset
  | NetworkRequest string string

fun is_network :: "effect \<Rightarrow> bool" where
  "is_network (NetworkRequest _ _) = True"
| "is_network _ = False"

definition reset_input :: "input_el \<Rightarrow> input_el" where
  "reset_input i = (if el_in_form i then i\<lparr> el_value := el_defaultValue i \<rparr> else i)"

definition form_reset :: "form_page \<Rightarrow> form_page" where
  "form_reset p = p\<lparr> name_input := map_option reset_input (name_input p),
                     email_input := map_option reset_input (email_input p),
                     message_input := map_option reset_input (message_input p) \<rparr>"

text \<open>
  The submit listener: the page after it, the effects in order, and the error that
  ended it, if any. The commented-out \<open>fetch\<close> of the source is not code.
\<close>

definition on_submit :: "form_page \<Rightarrow> form_page \<times> effect list \<times> js_error option" where
  "on_submit p =
     (case name_input p of
        None \<Rightarrow> (p, [PreventDefault], Some TypeError)
      | Some n \<Rightarrow>
          (case email_input p of
             None \<Rightarrow> (p, [PreventDefault], Some TypeError)
           | Some e \<Rightarrow>
               (case message_input p of
                  None \<Rightarrow> (p, [PreventDefault], Some TypeError)
                | Some m \<Rightarrow>
                    (let formData = (el_value n, el_value e, el_value m)
                     in (form_reset p,
                         [PreventDefault,
                          ConsoleLog ''Form submitted:'' formData,
                          Alert ''Thank you for your message! I will get back to you soon.'',
                          FormReset],
                         None)))))"

text \<open>
  The text the scroll listener compares after the \<open>#\<close>: the \<open>id\<close> of the last
  section reached (\<open>null\<close> printed as text when it has no \<open>id\<close>), or the empty
  string when no section is reached.
\<close>

definition current_text :: "window \<Rightarrow> section_el list \<Rightarrow> string" where
  "current_text w secs =
     (case last_reached w secs of
        None \<Rightarrow> ''''
      | Some s \<Rightarrow> (case sec_id s of Some i \<Rightarrow> i | None \<Rightarrow> ''null''))"

text \<open>
  A page scrolled to the top whose only section starts 500 pixels down, with a nav link
  to \<open>#\<close> and one to \<open>#about\<close>; and a page whose menu is open.
\<close>

definition cx_window :: window where "cx_window = \<lparr> pageYOffset = 0, scrollY = 0 \<rparr>"
definition cx_page :: page where
  "cx_page = \<lparr> burger = Some {}, nav = Some {},
               navLinks = [\<lparr> href = Some ''#'', link_classes = {} \<rparr>,
                           \<lparr> href = Some ''#about'', link_classes = {} \<rparr>],
               sections = [\<lparr> sec_id = Some ''about'', offsetTop = 500, clientHeight = 600 \<rparr>],
               main_nav = Some {} \<rparr>"

definition menu_open_page :: page where
  "menu_open_page =
     \<lparr> burger = Some {''toggle''}, nav = Some {''active'', ''nav-links''},
       navLinks = [\<lparr> href = Some ''#home'', link_classes = {''active''} \<rparr>,
                   \<lparr> href = Some ''#about'', link_classes = {} \<rparr>],
       sections = [\<lparr> sec_id = Some ''home'', offsetTop = 0, clientHeight = 600 \<rparr>,
                   \<lparr> sec_id = Some ''about'', offsetTop = 600, clientHeight = 600 \<rparr>],
       main_nav = Some {} \<rparr>"

text \<open>A filled-in contact form.\<close>

definition filled_form :: form_page where
  "filled_form =
     \<lparr> name_input = Some \<lparr> el_value = ''Ada'', el_defaultValue = [], el_in_form = True \<rparr>,
       email_input = Some \<lparr> el_value = ''ada@example.org'', el_defaultValue = [], el_in_form = True \<rparr>,
       message_input = Some \<lparr> el_value = ''Hello'', el_defaultValue = [], el_in_form = True \<rparr> \<rparr>"

section \<open>The plain viewer: loading the model, and the placeholder\<close>

text \<open>
  Scene objects of \<open>js/viewer.js\<close>: what kind of object it is, its geometry and
  material when it has them, its shadow flags, its position and scale, and its children.
  Geometries and materials are the constructor calls of the source with their arguments.
\<close>

datatype object_kind = Mesh | LineSegments | Group

datatype geometry =
    BoxGeometry real real real
  | EdgesGeometry geometry
  | LoadedGeometry

record physical_params =
  mp_color :: nat
  mp_metalness :: real
  mp_roughness :: real
  mp_clearcoat :: real
  mp_clearcoatRoughness :: real
  mp_reflectivity :: real
  mp_envMapIntensity :: real
  mp_emissive :: nat
  mp_emissiveIntensity :: real

datatype material =
    MeshPhysicalMaterial physical_params
  | LineBasicMaterial nat real
  | LoadedMaterial

datatype scene_object = SceneObject
  (kind: object_kind)
  (geometry: "geometry option")
  (material: "material option")
  (castShadow: bool)
  (receiveShadow: bool)
  (obj_position: "real \<times> real \<times> real")
  (obj_scale: "real \<times> real \<times> real")
  (children: "scene_object list")

definition new_Group :: scene_object where
  "new_Group = SceneObject Group None None False False (0, 0, 0) (1, 1, 1) []"

definition new_Mesh :: "geometry \<Rightarrow> material \<Rightarrow> scene_object" where
  "new_Mesh g m = SceneObject Mesh (Some g) (Some m) False False (0, 0, 0) (1, 1, 1) []"

definition new_LineSegments :: "geometry \<Rightarrow> material \<Rightarrow> scene_object" where
  "new_LineSegments g m =
     SceneObject LineSegments (Some g) (Some m) False False (0, 0, 0) (1, 1, 1) []"

fun group_add :: "scene_object \<Rightarrow> scene_object \<Rightarrow> scene_object" where
  "group_add (SceneObject k g m cs rs p s ch) child = SceneObject k g m cs rs p s (ch @ [child])"

fun set_castShadow :: "bool \<Rightarrow> scene_object \<Rightarrow> scene_object" where
  "set_castShadow v (SceneObject k g m cs rs p s ch) = SceneObject k g m v rs p s ch"

fun set_receiveShadow :: "bool \<Rightarrow> scene_object \<Rightarrow> scene_object" where
  "set_receiveShadow v (SceneObject k g m cs rs p s ch) = SceneObject k g m cs v p s ch"

fun set_position :: "real \<times> real \<times> real \<Rightarrow> scene_object \<Rightarrow> scene_object" where
  "set_position v (SceneObject k g m cs rs p s ch) = SceneObject k g m cs rs v s ch"

fun set_scale :: "real \<times> real \<times> real \<Rightarrow> scene_object \<Rightarrow> scene_object" where
  "set_scale v (SceneObject k g m cs rs p s ch) = SceneObject k g m cs rs p v ch"

text \<open>The material literal that both the success path and the placeholder use.\<close>

definition gem_params :: physical_params where
  "gem_params =
     \<lparr> mp_color = 0xffeeff, mp_metalness = 0.4, mp_roughness = 0.2, mp_clearcoat = 1.0,
       mp_clearcoatRoughness = 0.15, mp_reflectivity = 1.0, mp_envMapIntensity = 1.5,
       mp_emissive = 0x8844ff, mp_emissiveIntensity = 0.25 \<rparr>"

text \<open>
  The page and viewer state that loading touches: \<open>this.model\<close>, the objects added to
  the scene, the elements \<open>#loading-screen\<close> (its classes), \<open>#loading-text\<close> (its
  text) and \<open>#progress-bar-fill\<close> (its width), each \<open>None\<close> when the page lacks it,
  the timeouts set and not yet run (delay in milliseconds and callback), and the console.
\<close>

datatype timer_callback = HideLoadingScreen

record viewer =
  model :: "scene_object option"
  scene :: "scene_object list"
  loadingScreen :: "classList option"
  loadingText :: "string option"
  progressBar :: "string option"
  timers :: "(nat \<times> timer_callback) list"
  viewer_console :: "string list"

text \<open>The loop of \<open>loadDefaultGeometry\<close> that adds the four small cubes and their edges.\<close>

function small_cubes :: "nat \<Rightarrow> material \<Rightarrow> material \<Rightarrow> scene_object \<Rightarrow> scene_object" where
  "small_cubes i mat lineMaterial grp =
     (if i < 4 then
        (let angle = (real i / 4) * pi * 2;
             radius = 3;
             smallGeo = BoxGeometry 0.5 0.5 0.5;
             smallCube = new_Mesh smallGeo mat;
             smallCube = set_position (cos angle * radius, 0, sin angle * radius) smallCube;
             smallCube = set_castShadow True smallCube;
             grp = group_add grp smallCube;
             smallEdges = EdgesGeometry smallGeo;
             smallWireframe = new_LineSegments smallEdges lineMaterial;
             smallWireframe = set_position (obj_position smallCube) smallWireframe;
             grp = group_add grp smallWireframe
         in small_cubes (i + 1) mat lineMaterial grp)
      else grp)"
  by pat_completeness auto
termination
  by (relation "measure (\<lambda>(i, mat, lineMaterial, grp). 4 - i)") auto

declare small_cubes.simps [simp del]

definition default_group :: scene_object where
  "default_group =
     (let grp = new_Group;
          geom = BoxGeometry 2 2 2;
          mat = MeshPhysicalMaterial gem_params;
          cube = new_Mesh geom mat;
          cube = set_castShadow True cube;
          cube = set_receiveShadow True cube;
          grp = group_add grp cube;
          edges = EdgesGeometry geom;
          lineMaterial = LineBasicMaterial 0xcc99ff 2;
          wireframe = new_LineSegments edges lineMaterial;
          grp = group_add grp wireframe
      in small_cubes 0 mat lineMaterial grp)"

definition loadDefaultGeometry :: "viewer \<Rightarrow> viewer" where
  "loadDefaultGeometry v = v\<lparr> model := Some default_group, scene := scene v @ [default_group] \<rparr>"

text \<open>The error callback of \<open>loader.load\<close>.\<close>

definition on_load_error :: "viewer \<Rightarrow> viewer \<times> js_error option" where
  "on_load_error v =
     (let v1 = v\<lparr> viewer_console := viewer_console v @
                   [''Custom model not found, loading default geometry''] \<rparr>
      in case loadingText v1 of
           None \<Rightarrow> (v1, Some TypeError)
         | Some _ \<Rightarrow>
             (let v2 = v1\<lparr> loadingText := Some ''Loading default geometry...'' \<rparr>;
                  v3 = loadDefaultGeometry v2
              in (v3\<lparr> timers := timers v3 @ [(1000, HideLoadingScreen)] \<rparr>, None)))"

text \<open>
  The success callback. The bounding box of the loaded object is computed by the
  library; its centre and size are parameters here. The scale factor is \<open>3 / maxDim\<close>
  (for a box of size 0 JavaScript gives \<open>Infinity\<close>, which this type does not have;
  nothing below depends on the factor). \<open>traverse\<close> visits the object and all its
  descendants.
\<close>

fun apply_gem_material :: "scene_object \<Rightarrow> scene_object" where
  "apply_gem_material (SceneObject k g m cs rs p s ch) =
     (if k = Mesh
      then SceneObject k g (Some (MeshPhysicalMaterial gem_params)) True True p s
             (map apply_gem_material ch)
      else SceneObject k g m cs rs p s (map apply_gem_material ch))"

definition on_load_success ::
  "scene_object \<Rightarrow> real \<times> real \<times> real \<Rightarrow> real \<times> real \<times> real \<Rightarrow> viewer
     \<Rightarrow> viewer \<times> js_error option" where
  "on_load_success object center bsize v =
     (let (cx, cy, cz) = center;
          (sx, sy, sz) = bsize;
          (px, py, pz) = obj_position object;
          o1 = set_position (px - cx, py - cy, pz - cz) object;
          maxDim = max (max sx sy) sz;
          k = 3 / maxDim;
          o2 = set_scale (k, k, k) o1;
          o3 = apply_gem_material o2;
          v1 = v\<lparr> model := Some o3, scene := scene v @ [o3] \<rparr>
      in case loadingText v1 of
           None \<Rightarrow> (v1, Some TypeError)
         | Some _ \<Rightarrow>
             (let v2 = v1\<lparr> loadingText := Some ''Model Loaded!'' \<rparr>
              in case progressBar v2 of
                   None \<Rightarrow> (v2, Some TypeError)
                 | Some _ \<Rightarrow>
                     (v2\<lparr> progressBar := Some ''100%'',
                          timers := timers v2 @ [(500, HideLoadingScreen)] \<rparr>, None)))"

text \<open>What the loader reports, and \<open>loadModel\<close>'s reaction to it.\<close>

datatype load_outcome =
    Loaded scene_object "real \<times> real \<times> real" "real \<times> real \<times> real"
  | Failed

fun loadModel :: "load_outcome \<Rightarrow> viewer \<Rightarrow> viewer \<times> js_error option" where
  "loadModel (Loaded object center bsize) v = on_load_success object center bsize v"
| "loadModel Failed v = on_load_error v"

text \<open>
  Timeouts. A callback runs once its delay has passed; \<open>advance t\<close> lets \<open>t\<close>
  milliseconds pass: the timeouts due run in the order of their delays, the others wait
  on with the remaining delay.
\<close>

fun run_timer :: "timer_callback \<Rightarrow> viewer \<Rightarrow> viewer \<times> js_error option" where
  "run_timer HideLoadingScreen v =
     (case loadingScreen v of
        None \<Rightarrow> (v, Some TypeError)
      | Some cl \<Rightarrow> (v\<lparr> loadingScreen := Some (classList_add ''hidden'' cl) \<rparr>, None))"

definition advance :: "nat \<Rightarrow> viewer \<Rightarrow> viewer" where
  "advance t v =
     (let due = sort_key fst (filter (\<lambda>(d, cb). d \<le> t) (timers v));
          waiting = map (\<lambda>(d, cb). (d - t, cb)) (filter (\<lambda>(d, cb). \<not> d \<le> t) (timers v))
      in foldl (\<lambda>v (d, cb). fst (run_timer cb v)) (v\<lparr> timers := waiting \<rparr>) due)"

text \<open>A page with its loading elements, as the viewer finds it when loading starts.\<close>

definition loading_viewer :: viewer where
  "loading_viewer =
     \<lparr> model = None, scene = [], loadingScreen = Some {''loading-screen''},
       loadingText = Some ''Loading 3D Model...'', progressBar = Some ''0%'',
       timers = [], viewer_console = [] \<rparr>"

section \<open>The progressive image loader\<close>

text \<open>
  An \<open>img\<close> element: its \<open>data-src\<close> attribute (\<open>None\<close>: not set), its
  \<open>src\<close>, its classes, and whether the page gave it an \<open>onerror\<close> handler. Elements
  are identified by their index in the document's list of \<open>img\<close> elements.
\<close>

record img =
  data_src :: "string option"
  img_src :: "string option"
  img_classes :: classList
  has_onerror :: bool

text \<open>
  The loader and what the browser keeps for it: the document's \<open>img\<close> elements,
  \<open>this.images\<close>, the targets the intersection observer is observing, the temporary
  images that \<open>loadImage\<close> has created (for which element, with which \<open>src\<close>; one is
  created by each call and by nothing else), those of them whose load has ended, and the
  elements whose own \<open>onerror\<close> handler has been called.
\<close>

record img_loader =
  elements :: "img list"
  images :: "nat list"
  observed :: "nat list"
  tempImgs :: "(nat \<times> string option) list"
  settled :: "nat list"
  onerror_calls :: "nat list"

definition loadImage :: "nat \<Rightarrow> img_loader \<Rightarrow> img_loader" where
  "loadImage i L =
     (let fullSrc = (if i < length (elements L) then data_src (elements L ! i) else None)
      in L\<lparr> tempImgs := tempImgs L @ [(i, fullSrc)] \<rparr>)"

definition unobserve :: "nat \<Rightarrow> img_loader \<Rightarrow> img_loader" where
  "unobserve i L = L\<lparr> observed := removeAll i (observed L) \<rparr>"

text \<open>The observer's callback, on the entries (target, \<open>isIntersecting\<close>) of one delivery.\<close>

definition observer_callback :: "(nat \<times> bool) list \<Rightarrow> img_loader \<Rightarrow> img_loader" where
  "observer_callback entries L =
     foldl (\<lambda>L (tgt, isIntersecting).
              if isIntersecting then unobserve tgt (loadImage tgt L) else L)
           L entries"

definition loadAllImages :: "img_loader \<Rightarrow> img_loader" where
  "loadAllImages L = foldl (\<lambda>L i. loadImage i L) L (images L)"

text \<open>
  \<open>setupImages\<close>, given the document's \<open>img\<close> elements and whether the browser has
  \<open>IntersectionObserver\<close>: the images are the elements with a \<open>data-src\<close>.
\<close>

definition setupImages :: "img list \<Rightarrow> bool \<Rightarrow> img_loader" where
  "setupImages doc has_observer =
     (let L = \<lparr> elements = doc,
                 images = filter (\<lambda>i. data_src (doc ! i) \<noteq> None) [0 ..< length doc],
                 observed = [], tempImgs = [], settled = [], onerror_calls = [] \<rparr>
      in if length (images L) = 0 then L
         else if has_observer then L\<lparr> observed := images L \<rparr>
         else loadAllImages L)"

text \<open>The handlers \<open>onload\<close> and \<open>onerror\<close> of the \<open>k\<close>-th temporary image.\<close>

definition temp_onload :: "nat \<Rightarrow> img_loader \<Rightarrow> img_loader" where
  "temp_onload k L =
     (let (i, fullSrc) = tempImgs L ! k;
          e = elements L ! i;
          e1 = e\<lparr> img_src := fullSrc \<rparr>;
          e2 = e1\<lparr> img_classes := classList_add ''loaded'' (img_classes e1) \<rparr>;
          e3 = e2\<lparr> data_src := None \<rparr>
      in L\<lparr> elements := (elements L)[i := e3], settled := settled L @ [k] \<rparr>)"

definition temp_onerror :: "nat \<Rightarrow> img_loader \<Rightarrow> img_loader" where
  "temp_onerror k L =
     (let (i, fullSrc) = tempImgs L ! k;
          L1 = L\<lparr> settled := settled L @ [k] \<rparr>
      in if has_onerror (elements L ! i)
         then L1\<lparr> onerror_calls := onerror_calls L1 @ [i] \<rparr> else L1)"

text \<open>
  What the browser may do next. It delivers to the callback entries for targets that
  are under observation when it delivers them (\<open>unobserve\<close> also drops the entries
  queued for its target); and it ends the load of a temporary image that exists and has
  not ended yet, with \<open>onload\<close> or with \<open>onerror\<close>. \<open>img_step\<close> is \<open>None\<close>
  for an event the browser cannot produce in that state. One delivery may carry several
  entries for one target; \<open>single_report\<close> says of an event that it does not report
  the same target as intersecting twice.
\<close>

datatype img_event = Deliver "(nat \<times> bool) list" | TempLoad nat | TempError nat

definition deliverable :: "(nat \<times> bool) list \<Rightarrow> img_loader \<Rightarrow> bool" where
  "deliverable entries L =
     list_all (\<lambda>(tgt, isIntersecting). tgt \<in> set (observed L)) entries"

fun single_report :: "img_event \<Rightarrow> bool" where
  "single_report (Deliver entries) = distinct (map fst (filter snd entries))"
| "single_report _ = True"

definition can_settle :: "nat \<Rightarrow> img_loader \<Rightarrow> bool" where
  "can_settle k L =
     (k < length (tempImgs L) \<and> k \<notin> set (settled L)
      \<and> fst (tempImgs L ! k) < length (elements L))"

fun img_step :: "img_loader \<Rightarrow> img_event \<Rightarrow> img_loader option" where
  "img_step L (Deliver entries) =
     (if deliverable entries L then Some (observer_callback entries L) else None)"
| "img_step L (TempLoad k) = (if can_settle k L then Some (temp_onload k L) else None)"
| "img_step L (TempError k) = (if can_settle k L then Some (temp_onerror k L) else None)"

fun img_run :: "img_loader \<Rightarrow> img_event list \<Rightarrow> img_loader option" where
  "img_run L [] = Some L"
| "img_run L (ev # evs) = (case img_step L ev of None \<Rightarrow> None | Some L' \<Rightarrow> img_run L' evs)"

text \<open>A document with two lazy images and one ordinary image.\<close>

definition gallery :: "img list" where
  "gallery =
     [\<lparr> data_src = Some ''a.jpg'', img_src = Some ''a-small.jpg'', img_classes = {},
        has_onerror = False \<rparr>,
      \<lparr> data_src = None, img_src = Some ''logo.png'', img_classes = {}, has_onerror = False \<rparr>,
      \<lparr> data_src = Some ''b.jpg'', img_src = Some ''b-small.jpg'', img_classes = {},
        has_onerror = True \<rparr>]"

text \<open>
  No element has two temporary images, and no element with a temporary image is still
  observed.
\<close>

definition loads_once :: "img_loader \<Rightarrow> bool" where
  "loads_once L =
     (distinct (map fst (tempImgs L)) \<and> set (map fst (tempImgs L)) \<inter> set (observed L) = {})"

text \<open>
  A run on the gallery: the first delivery reports the first image out of view and the
  third in view (\<open>gallery_mid\<close> is the loader after it); the second delivery reports
  the first image in view, then the third image's load ends well (\<open>gallery_after\<close>).
\<close>

definition gallery_mid :: img_loader where
  "gallery_mid =
     \<lparr> elements = gallery, images = [0, 2], observed = [0],
       tempImgs = [(2, Some ''b.jpg'')], settled = [], onerror_calls = [] \<rparr>"

definition gallery_rest :: "img_event list" where
  "gallery_rest = [Deliver [(0, True)], TempLoad 0]"

definition gallery_after :: img_loader where
  "gallery_after =
     \<lparr> elements =
         [\<lparr> data_src = Some ''a.jpg'', img_src = Some ''a-small.jpg'', img_classes = {},
            has_onerror = False \<rparr>,
          \<lparr> data_src = None, img_src = Some ''logo.png'', img_classes = {},
            has_onerror = False \<rparr>,
          \<lparr> data_src = None, img_src = Some ''b.jpg'', img_classes = {''loaded''},
            has_onerror = True \<rparr>],
       images = [0, 2], observed = [],
       tempImgs = [(2, Some ''b.jpg''), (0, Some ''a.jpg'')],
       settled = [0], onerror_calls = [] \<rparr>"

section \<open>Properties\<close>

subsection \<open>Rounding to binary64\<close>

lemma rne_error: "\<bar>of_int (rne y) - y\<bar> \<le> 1 / 2"
  unfolding rne_def Let_def by (auto simp: abs_if) linarith+

lemma rne_of_int [simp]: "rne (of_int k) = k"
  by (simp add: rne_def)

lemma rne_0 [simp]: "rne 0 = 0"
  using rne_of_int [of 0] by simp

lemma rne_numeral [simp]: "rne (numeral k) = numeral k"
  using rne_of_int [of "numeral k"] by simp

lemma find_exp_le: "find_exp n x = - 1022 \<or> 2 powi (find_exp n x) \<le> x"
  by (induction n) auto

lemma find_exp_eq:
  assumes "2 powi e \<le> x" and "x < 2 powi (e + 1)" and "- 1022 \<le> e" and "e \<le> int n - 1022"
  shows "find_exp n x = e"
  using assms
proof (induction n)
  case 0
  then show ?case by simp
next
  case (Suc n)
  show ?case
  proof (cases "e = int (Suc n) - 1022")
    case True
    with Suc.prems show ?thesis by simp
  next
    case False
    with Suc.prems have le: "e \<le> int n - 1022" by simp
    have "e + 1 \<le> int (Suc n) - 1022" using le by simp
    then have "(2::real) powi (e + 1) \<le> 2 powi (int (Suc n) - 1022)"
      by (intro power_int_increasing) auto
    with Suc.prems(2) have "\<not> 2 powi (int (Suc n) - 1022) \<le> x" by linarith
    then show ?thesis using Suc.IH [OF Suc.prems(1,2,3) le] by simp
  qed
qed

lemma expo_eq:
  "2 powi e \<le> \<bar>x\<bar> \<Longrightarrow> \<bar>x\<bar> < 2 powi (e + 1) \<Longrightarrow> - 1022 \<le> e \<Longrightarrow> e \<le> 1023 \<Longrightarrow> expo x = e"
  unfolding expo_def by (rule find_exp_eq) simp_all

lemma fl_eval:
  "2 powi e \<le> \<bar>x\<bar> \<Longrightarrow> \<bar>x\<bar> < 2 powi (e + 1) \<Longrightarrow> - 1022 \<le> e \<Longrightarrow> e \<le> 1023 \<Longrightarrow>
   fl x = of_int (rne (x / 2 powi (e - 52))) * 2 powi (e - 52)"
  by (simp add: fl_def expo_eq)

lemma fl_0 [simp]: "fl 0 = 0"
  by (simp add: fl_def)

lemma fl_error:
  assumes "\<bar>x\<bar> < 2 powi (E + 1)" and "- 1022 \<le> E"
  shows "\<bar>fl x - x\<bar> \<le> 2 powi (E - 53)"
proof -
  define e where "e = expo x"
  have "e = - 1022 \<or> 2 powi e \<le> \<bar>x\<bar>"
    unfolding e_def expo_def by (rule find_exp_le)
  then have eE: "e \<le> E"
  proof
    assume "e = - 1022" with assms show ?thesis by simp
  next
    assume "2 powi e \<le> \<bar>x\<bar>"
    with assms have "(2::real) powi e < 2 powi (E + 1)" by linarith
    have "\<not> E + 1 \<le> e"
    proof
      assume "E + 1 \<le> e"
      then have "(2::real) powi (E + 1) \<le> 2 powi e"
        by (intro power_int_increasing) auto
      with \<open>(2::real) powi e < 2 powi (E + 1)\<close> show False by linarith
    qed
    then show ?thesis by simp
  qed
  have pos: "(0::real) < 2 powi (e - 52)" by simp
  have "fl x - x = (of_int (rne (x / 2 powi (e - 52))) - x / 2 powi (e - 52)) * 2 powi (e - 52)"
    unfolding fl_def e_def [symmetric] using pos by (simp add: field_simps)
  then have "\<bar>fl x - x\<bar> = \<bar>of_int (rne (x / 2 powi (e - 52))) - x / 2 powi (e - 52)\<bar> * 2 powi (e - 52)"
    using pos by (simp add: abs_mult)
  also have "\<dots> \<le> (1 / 2) * 2 powi (e - 52)"
    using rne_error pos by (intro mult_right_mono) auto
  also have "\<dots> = 2 powi (e - 53)"
    by (simp add: power_int_diff)
  also have "\<dots> \<le> 2 powi (E - 53)"
    using eE by (intro power_int_increasing) auto
  finally show ?thesis .
qed

lemma fl_1 [simp]: "fl 1 = 1"
  by (subst fl_eval [where e = 0]) simp_all

text \<open>The error of the rounded interpolation \<open>a + (c - a) * t\<close>.\<close>

lemma pw: "(2::real) powi (- 52) = 2 * 2 powi (- 53)" "(2::real) powi (- 50) = 8 * 2 powi (- 53)"
  "(2::real) powi (- 54) = 2 powi (- 53) / 2"
  by (simp_all add: power_int_minus)

lemma u_small: "(0::real) < 2 powi (- 53)" "(2::real) powi (- 53) \<le> 1 / 8"
  by (simp_all add: power_int_minus)

lemma lerp_component_error:
  assumes a: "0 \<le> a" "a \<le> 1" and c: "0 \<le> c" "c \<le> 1" and T: "0 \<le> T" "T \<le> 1"
    and t: "\<bar>t - T\<bar> \<le> 2 powi (- 52)"
  shows "\<bar>fl (a + fl (fl (c - a) * t)) - mix a c T\<bar> \<le> 2 powi (- 50)"
proof -
  define u :: real where "u = 2 powi (- 53)"
  have u: "0 < u" "u \<le> 1 / 8" unfolding u_def by (rule u_small)+
  have t': "\<bar>t - T\<bar> \<le> 2 * u" using t by (simp add: pw u_def)
  define d where "d = fl (c - a)"
  define m where "m = fl (d * t)"
  have "\<bar>c - a\<bar> < 2 powi (0 + 1)" using a c by (simp add: abs_if)
  then have d: "\<bar>d - (c - a)\<bar> \<le> u"
    unfolding d_def u_def using fl_error [of "c - a" 0] by simp
  have ca: "\<bar>c - a\<bar> \<le> 1" using a c by (simp add: abs_if)
  have dabs: "\<bar>d\<bar> \<le> 1 + u" using d ca by linarith
  have tabs: "\<bar>t\<bar> \<le> 1 + 2 * u" using t' T by linarith
  have "\<bar>d * t\<bar> \<le> (1 + u) * (1 + 2 * u)"
    unfolding abs_mult using dabs tabs by (intro mult_mono) auto
  also have "\<dots> = 1 + 3 * u + 2 * (u * u)" by (simp add: algebra_simps)
  also have "u * u \<le> u * (1 / 8)" using u by (intro mult_left_mono) auto
  finally have dt: "\<bar>d * t\<bar> \<le> 1 + 4 * u" using u by simp
  then have "\<bar>d * t\<bar> < 2 powi (0 + 1)" using u by simp
  then have m: "\<bar>m - d * t\<bar> \<le> u"
    unfolding m_def u_def using fl_error [of "d * t" 0] by simp
  have "d * t - (c - a) * T = (d - (c - a)) * t + (c - a) * (t - T)"
    by (simp add: algebra_simps)
  then have "\<bar>d * t - (c - a) * T\<bar> \<le> \<bar>d - (c - a)\<bar> * \<bar>t\<bar> + \<bar>c - a\<bar> * \<bar>t - T\<bar>"
    by (metis abs_mult abs_triangle_ineq)
  also have "\<dots> \<le> u * (1 + 2 * u) + 1 * (2 * u)"
    using d tabs ca t' u by (intro add_mono mult_mono) auto
  also have "\<dots> = 3 * u + 2 * (u * u)" by (simp add: algebra_simps)
  also have "u * u \<le> u * (1 / 8)" using u by (intro mult_left_mono) auto
  finally have e1: "\<bar>d * t - (c - a) * T\<bar> \<le> 4 * u" using u by simp
  have mixeq: "mix a c T = a + (c - a) * T" by (simp add: mix_def algebra_simps)
  have "0 \<le> (1 - T) * a" "0 \<le> T * c" using a c T by simp_all
  moreover have "(1 - T) * a \<le> (1 - T) * 1" "T * c \<le> T * 1"
    using a c T by (intro mult_left_mono; simp)+
  then have "(1 - T) * a \<le> 1 - T" "T * c \<le> T" by simp_all
  ultimately have mixb: "0 \<le> mix a c T" "mix a c T \<le> 1"
    unfolding mix_def by linarith+
  have e2: "\<bar>m - (c - a) * T\<bar> \<le> 5 * u" using m e1 by linarith
  have "\<bar>a + m\<bar> \<le> 1 + 5 * u" using e2 mixb mixeq by linarith
  then have "\<bar>a + m\<bar> < 2 powi (0 + 1)" using u by simp
  then have r: "\<bar>fl (a + m) - (a + m)\<bar> \<le> u"
    unfolding u_def using fl_error [of "a + m" 0] by simp
  have "\<bar>fl (a + m) - mix a c T\<bar> \<le> 6 * u" using r e2 mixeq by linarith
  then have "\<bar>fl (a + m) - mix a c T\<bar> \<le> 8 * u" using u by linarith
  then show ?thesis unfolding m_def d_def u_def by (simp add: pw)
qed

lemma param_first: "0 \<le> p \<Longrightarrow> p \<le> 1 \<Longrightarrow> \<bar>fl (p * 2) - 2 * p\<bar> \<le> 2 powi (- 52)"
  using fl_error [of "p * 2" 1] by (simp add: abs_if mult.commute)

lemma param_second:
  assumes "1 / 2 < p" "p \<le> 1"
  shows "\<bar>fl (fl (p - 1 / 2) * 2) - 2 * (p - 1 / 2)\<bar> \<le> 2 powi (- 52)"
proof -
  define u :: real where "u = 2 powi (- 53)"
  have u: "0 < u" "u \<le> 1 / 8" unfolding u_def by (rule u_small)+
  define X where "X = fl (p - 1 / 2)"
  define Z where "Z = fl (X * 2)"
  have "\<bar>p - 1 / 2\<bar> < 2 powi (- 1 + 1)" using assms by (simp add: abs_if)
  then have s: "\<bar>X - (p - 1 / 2)\<bar> \<le> u / 2"
    unfolding X_def using fl_error [of "p - 1 / 2" "- 1"] by (simp add: pw u_def)
  have "\<bar>X * 2\<bar> < 2" using s assms u by linarith
  then have "\<bar>X * 2\<bar> < 2 powi (0 + 1)" by simp
  then have z: "\<bar>Z - X * 2\<bar> \<le> u"
    unfolding Z_def using fl_error [of "X * 2" 0] by (simp add: u_def)
  have "\<bar>Z - 2 * (p - 1 / 2)\<bar> \<le> 2 * u" using s z unfolding abs_le_iff by (auto simp: algebra_simps)
  then show ?thesis unfolding Z_def X_def by (simp add: pw u_def)
qed

subsection \<open>The colour follows a two-segment linear interpolation\<close>

lemma color_copy_is [simp]: "color_copy this c = c"
  by (cases this, cases c) (simp add: color_copy_def)

lemma fl_byte_23: "fl (23 / 255) = 6499312403420951 / 72057594037927936"
  by (subst fl_eval [where e = "- 4"]) (simp_all add: rne_def power_int_minus)

lemma fl_byte_68: "fl (68 / 255) = 4803839602528529 / 18014398509481984"
  by (subst fl_eval [where e = "- 2"]) (simp_all add: rne_def power_int_minus)

lemma fl_byte_41: "fl (41 / 255) = 5792865403049109 / 36028797018963968"
  by (subst fl_eval [where e = "- 3"]) (simp_all add: rne_def power_int_minus)

lemma fl_byte_121: "fl (121 / 255) = 4274004352249647 / 9007199254740992"
  by (subst fl_eval [where e = "- 2"]) (simp_all add: rne_def power_int_minus)

lemma Color_white: "Color 0xffffff = \<lparr> col_r = 1, col_g = 1, col_b = 1 \<rparr>"
  by (simp add: Color_def)

lemma Color_ruby:
  "Color 0xff1744 = \<lparr> col_r = 1, col_g = 6499312403420951 / 72057594037927936,
                      col_b = 4803839602528529 / 18014398509481984 \<rparr>"
proof -
  have "Color 0xff1744 = \<lparr> col_r = fl 1, col_g = fl (23 / 255), col_b = fl (68 / 255) \<rparr>"
    unfolding Color_def by (simp del: fl_1)
  then show ?thesis by (simp only: fl_1 fl_byte_23 fl_byte_68)
qed

lemma Color_sapphire:
  "Color 0x2979ff = \<lparr> col_r = 5792865403049109 / 36028797018963968,
                      col_g = 4274004352249647 / 9007199254740992, col_b = 1 \<rparr>"
proof -
  have "Color 0x2979ff = \<lparr> col_r = fl (41 / 255), col_g = fl (121 / 255), col_b = fl 1 \<rparr>"
    unfolding Color_def by (simp del: fl_1)
  then show ?thesis by (simp only: fl_1 fl_byte_41 fl_byte_121)
qed

lemma lerp_half_r: "fl (1 + fl (fl (1 - 1) * 1)) = 1"
proof -
  have d: "fl (1 - 1) = 0" by simp
  have m: "fl (0 * 1) = 0" by simp
  have r: "fl (1 + 0) = 1"
    by (subst fl_eval [where e = "0"]) (simp_all add: rne_def power_int_minus)
  show ?thesis by (simp only: d m r)
qed

lemma lerp_half_g: "fl (1 + fl (fl ((6499312403420951 / 72057594037927936) - 1) * 1)) = (812414050427619 / 9007199254740992)"
proof -
  have d: "fl ((6499312403420951 / 72057594037927936) - 1) = (- (8194785204313373 / 9007199254740992))"
    by (subst fl_eval [where e = "- 1"]) (simp_all add: rne_def power_int_minus)
  have m: "fl ((- (8194785204313373 / 9007199254740992)) * 1) = (- (8194785204313373 / 9007199254740992))"
    by (subst fl_eval [where e = "- 1"]) (simp_all add: rne_def power_int_minus)
  have r: "fl (1 + (- (8194785204313373 / 9007199254740992))) = (812414050427619 / 9007199254740992)"
    by (subst fl_eval [where e = "- 4"]) (simp_all add: rne_def power_int_minus)
  show ?thesis by (simp only: d m r)
qed

lemma lerp_half_b: "fl (1 + fl (fl ((4803839602528529 / 18014398509481984) - 1) * 1)) = (300239975158033 / 1125899906842624)"
proof -
  have d: "fl ((4803839602528529 / 18014398509481984) - 1) = (- (825659931684591 / 1125899906842624))"
    by (subst fl_eval [where e = "- 1"]) (simp_all add: rne_def power_int_minus)
  have m: "fl ((- (825659931684591 / 1125899906842624)) * 1) = (- (825659931684591 / 1125899906842624))"
    by (subst fl_eval [where e = "- 1"]) (simp_all add: rne_def power_int_minus)
  have r: "fl (1 + (- (825659931684591 / 1125899906842624))) = (300239975158033 / 1125899906842624)"
    by (subst fl_eval [where e = "- 2"]) (simp_all add: rne_def power_int_minus)
  show ?thesis by (simp only: d m r)
qed

lemma lerp_one_r: "fl (1 + fl (fl ((5792865403049109 / 36028797018963968) - 1) * 1)) = (1448216350762277 / 9007199254740992)"
proof -
  have d: "fl ((5792865403049109 / 36028797018963968) - 1) = (- (7558982903978715 / 9007199254740992))"
    by (subst fl_eval [where e = "- 1"]) (simp_all add: rne_def power_int_minus)
  have m: "fl ((- (7558982903978715 / 9007199254740992)) * 1) = (- (7558982903978715 / 9007199254740992))"
    by (subst fl_eval [where e = "- 1"]) (simp_all add: rne_def power_int_minus)
  have r: "fl (1 + (- (7558982903978715 / 9007199254740992))) = (1448216350762277 / 9007199254740992)"
    by (subst fl_eval [where e = "- 3"]) (simp_all add: rne_def power_int_minus)
  show ?thesis by (simp only: d m r)
qed

lemma lerp_one_g: "fl ((6499312403420951 / 72057594037927936) + fl (fl ((4274004352249647 / 9007199254740992) - (6499312403420951 / 72057594037927936)) * 1)) = (4274004352249647 / 9007199254740992)"
proof -
  have d: "fl ((4274004352249647 / 9007199254740992) - (6499312403420951 / 72057594037927936)) = (865397575455507 / 2251799813685248)"
    by (subst fl_eval [where e = "- 2"]) (simp_all add: rne_def power_int_minus)
  have m: "fl ((865397575455507 / 2251799813685248) * 1) = (865397575455507 / 2251799813685248)"
    by (subst fl_eval [where e = "- 2"]) (simp_all add: rne_def power_int_minus)
  have r: "fl ((6499312403420951 / 72057594037927936) + (865397575455507 / 2251799813685248)) = (4274004352249647 / 9007199254740992)"
    by (subst fl_eval [where e = "- 2"]) (simp_all add: rne_def power_int_minus)
  show ?thesis by (simp only: d m r)
qed

lemma lerp_one_b: "fl ((4803839602528529 / 18014398509481984) + fl (fl (1 - (4803839602528529 / 18014398509481984)) * 1)) = 1"
proof -
  have d: "fl (1 - (4803839602528529 / 18014398509481984)) = (825659931684591 / 1125899906842624)"
    by (subst fl_eval [where e = "- 1"]) (simp_all add: rne_def power_int_minus)
  have m: "fl ((825659931684591 / 1125899906842624) * 1) = (825659931684591 / 1125899906842624)"
    by (subst fl_eval [where e = "- 1"]) (simp_all add: rne_def power_int_minus)
  have r: "fl ((4803839602528529 / 18014398509481984) + (825659931684591 / 1125899906842624)) = 1"
    by (subst fl_eval [where e = "0"]) (simp_all add: rne_def power_int_minus)
  show ?thesis by (simp only: d m r)
qed


lemma getGemColor_half:
  "getGemColor (1 / 2) = \<lparr> col_r = 1, col_g = 812414050427619 / 9007199254740992,
                            col_b = 300239975158033 / 1125899906842624 \<rparr>"
proof -
  have "getGemColor (1 / 2) = lerp (Color 0xffffff) (Color 0xff1744) 1"
    by (simp add: getGemColor_def Let_def crystalColor_def rubyColor_def)
  also have "\<dots> = \<lparr> col_r = 1, col_g = 812414050427619 / 9007199254740992,
                            col_b = 300239975158033 / 1125899906842624 \<rparr>"
    unfolding Color_white Color_ruby lerp_def
    by (simp only: color.simps lerp_half_r lerp_half_g lerp_half_b)
  finally show ?thesis .
qed

lemma getGemColor_one:
  "getGemColor 1 = \<lparr> col_r = 1448216350762277 / 9007199254740992,
                      col_g = 4274004352249647 / 9007199254740992, col_b = 1 \<rparr>"
proof -
  have h: "fl (1 - 1 / 2) = 1 / 2"
    by (subst fl_eval [where e = "- 1"]) (simp_all add: rne_def power_int_minus)
  have "getGemColor 1 = lerp (Color 0xff1744) (Color 0x2979ff) 1"
    using h by (simp add: getGemColor_def Let_def rubyColor_def sapphireColor_def)
  also have "\<dots> = \<lparr> col_r = 1448216350762277 / 9007199254740992,
                      col_g = 4274004352249647 / 9007199254740992, col_b = 1 \<rparr>"
    unfolding Color_ruby Color_sapphire lerp_def
    by (simp only: color.simps lerp_one_r lerp_one_g lerp_one_b)
  finally show ?thesis .
qed

text \<open>
  C1, as stated, fails: in binary64 arithmetic \<open>getGemColor(0.5)\<close> is not the colour
  \<open>0xff1744\<close> and \<open>getGemColor(1)\<close> is not the colour \<open>0x2979ff\<close>; a component
  of each is off by one unit in the last place.
\<close>

theorem getGemColor_endpoints_counterexample:
  "getGemColor (1 / 2) \<noteq> Color 0xff1744 \<and> getGemColor 1 \<noteq> Color 0x2979ff"
  unfolding getGemColor_half getGemColor_one Color_ruby Color_sapphire by simp

lemma unit_colors:
  "unit_color (Color 0xffffff)" "unit_color (Color 0xff1744)" "unit_color (Color 0x2979ff)"
  by (simp_all add: unit_color_def Color_white Color_ruby Color_sapphire)

lemma lerp_error:
  assumes "unit_color A" and "unit_color C" and "0 \<le> T" and "T \<le> 1"
    and "\<bar>t - T\<bar> \<le> 2 powi (- 52)"
  shows "\<bar>col_r (lerp A C t) - col_r (spec_lerp A C T)\<bar> \<le> 2 powi (- 50)
       \<and> \<bar>col_g (lerp A C t) - col_g (spec_lerp A C T)\<bar> \<le> 2 powi (- 50)
       \<and> \<bar>col_b (lerp A C t) - col_b (spec_lerp A C T)\<bar> \<le> 2 powi (- 50)"
proof -
  have sel: "col_r (lerp A C t) = fl (col_r A + fl (fl (col_r C - col_r A) * t))"
    "col_g (lerp A C t) = fl (col_g A + fl (fl (col_g C - col_g A) * t))"
    "col_b (lerp A C t) = fl (col_b A + fl (fl (col_b C - col_b A) * t))"
    "col_r (spec_lerp A C T) = mix (col_r A) (col_r C) T"
    "col_g (spec_lerp A C T) = mix (col_g A) (col_g C) T"
    "col_b (spec_lerp A C T) = mix (col_b A) (col_b C) T"
    by (simp_all add: lerp_def spec_lerp_def)
  have A: "0 \<le> col_r A" "col_r A \<le> 1" "0 \<le> col_g A" "col_g A \<le> 1"
    "0 \<le> col_b A" "col_b A \<le> 1"
    and C: "0 \<le> col_r C" "col_r C \<le> 1" "0 \<le> col_g C" "col_g C \<le> 1"
    "0 \<le> col_b C" "col_b C \<le> 1"
    using assms(1,2) by (simp_all add: unit_color_def)
  show ?thesis
    unfolding sel
    by (intro conjI lerp_component_error A C assms(3,4,5))
qed

lemma getGemColor_error:
  assumes "0 \<le> p" and "p \<le> 1"
  shows "\<bar>col_r (getGemColor p) - col_r (ideal_gem p)\<bar> \<le> 2 powi (- 50)
       \<and> \<bar>col_g (getGemColor p) - col_g (ideal_gem p)\<bar> \<le> 2 powi (- 50)
       \<and> \<bar>col_b (getGemColor p) - col_b (ideal_gem p)\<bar> \<le> 2 powi (- 50)"
proof (cases "p \<le> 1 / 2")
  case True
  have g: "getGemColor p = lerp (Color 0xffffff) (Color 0xff1744) (fl (p * 2))"
    using True by (simp add: getGemColor_def Let_def crystalColor_def rubyColor_def)
  have i: "ideal_gem p = spec_lerp (Color 0xffffff) (Color 0xff1744) (2 * p)"
    using True by (simp add: ideal_gem_def)
  show ?thesis
    unfolding g i
    using assms True by (intro lerp_error unit_colors param_first) simp_all
next
  case False
  have g: "getGemColor p = lerp (Color 0xff1744) (Color 0x2979ff) (fl (fl (p - 1 / 2) * 2))"
    using False by (simp add: getGemColor_def Let_def rubyColor_def sapphireColor_def)
  have i: "ideal_gem p = spec_lerp (Color 0xff1744) (Color 0x2979ff) (2 * (p - 1 / 2))"
    using False by (simp add: ideal_gem_def)
  show ?thesis
    unfolding g i
    using assms False by (intro lerp_error unit_colors param_second) simp_all
qed

lemma getGemColor_0: "getGemColor 0 = Color 0xffffff"
  by (simp add: getGemColor_def Let_def crystalColor_def lerp_def Color_white)

lemma ideal_gem_values:
  "ideal_gem 0 = Color 0xffffff" "ideal_gem (1 / 2) = Color 0xff1744"
  "ideal_gem 1 = Color 0x2979ff"
  by (simp_all add: ideal_gem_def spec_lerp_def mix_def)

lemma ideal_gem_cont:
  "isCont (\<lambda>q. col_r (ideal_gem q)) (1 / 2)"
  "isCont (\<lambda>q. col_g (ideal_gem q)) (1 / 2)"
  "isCont (\<lambda>q. col_b (ideal_gem q)) (1 / 2)"
proof -
  have cont: "isCont (\<lambda>q. if q \<le> 1 / 2 then mix a c (2 * q) else mix c d (2 * (q - 1 / 2))) (1 / 2)"
    for a c d :: real
    unfolding mix_def
    by (rule isCont_If_ge) (auto intro!: tendsto_eq_intros continuous_intros)
  have r: "(\<lambda>q. col_r (ideal_gem q)) =
      (\<lambda>q. if q \<le> 1 / 2 then mix (col_r (Color 0xffffff)) (col_r (Color 0xff1744)) (2 * q)
           else mix (col_r (Color 0xff1744)) (col_r (Color 0x2979ff)) (2 * (q - 1 / 2)))"
    and g: "(\<lambda>q. col_g (ideal_gem q)) =
      (\<lambda>q. if q \<le> 1 / 2 then mix (col_g (Color 0xffffff)) (col_g (Color 0xff1744)) (2 * q)
           else mix (col_g (Color 0xff1744)) (col_g (Color 0x2979ff)) (2 * (q - 1 / 2)))"
    and b: "(\<lambda>q. col_b (ideal_gem q)) =
      (\<lambda>q. if q \<le> 1 / 2 then mix (col_b (Color 0xffffff)) (col_b (Color 0xff1744)) (2 * q)
           else mix (col_b (Color 0xff1744)) (col_b (Color 0x2979ff)) (2 * (q - 1 / 2)))"
    by (rule ext, simp add: ideal_gem_def spec_lerp_def)+
  show "isCont (\<lambda>q. col_r (ideal_gem q)) (1 / 2)" unfolding r by (rule cont)
  show "isCont (\<lambda>q. col_g (ideal_gem q)) (1 / 2)" unfolding g by (rule cont)
  show "isCont (\<lambda>q. col_b (ideal_gem q)) (1 / 2)" unfolding b by (rule cont)
qed

text \<open>
  C1, amended. For every progress \<open>p\<close> in \<open>[0, 1]\<close>, \<open>getGemColor p\<close> is
  the library's \<open>lerp\<close> from white to ruby, or from ruby to sapphire, at the rounded
  parameter, and each of its components is within \<open>2\<^sup>-\<^sup>5\<^sup>0\<close> of the componentwise linear
  interpolation from crystal white to ruby red at parameter \<open>2 * p\<close> when
  \<open>p \<le> 1/2\<close>, and from ruby red to sapphire blue at parameter \<open>2 * (p - 1/2)\<close>
  otherwise. \<open>getGemColor 0\<close> is white exactly. The interpolation is white at 0,
  ruby at 1/2 and sapphire at 1, so \<open>getGemColor\<close> is within that margin of ruby at
  1/2 and of sapphire at 1; and each component of the interpolation is continuous at
  \<open>p = 1/2\<close>.
\<close>

theorem getGemColor_near_interpolation:
  assumes "0 \<le> p" and "p \<le> 1"
  shows "getGemColor p =
           (if p \<le> 1 / 2 then lerp (Color 0xffffff) (Color 0xff1744) (fl (p * 2))
            else lerp (Color 0xff1744) (Color 0x2979ff) (fl (fl (p - 1 / 2) * 2)))
       \<and> \<bar>col_r (getGemColor p) - col_r (ideal_gem p)\<bar> \<le> 2 powi (- 50)
       \<and> \<bar>col_g (getGemColor p) - col_g (ideal_gem p)\<bar> \<le> 2 powi (- 50)
       \<and> \<bar>col_b (getGemColor p) - col_b (ideal_gem p)\<bar> \<le> 2 powi (- 50)
       \<and> getGemColor 0 = Color 0xffffff
       \<and> ideal_gem 0 = Color 0xffffff
       \<and> ideal_gem (1 / 2) = Color 0xff1744
       \<and> ideal_gem 1 = Color 0x2979ff
       \<and> isCont (\<lambda>q. col_r (ideal_gem q)) (1 / 2)
       \<and> isCont (\<lambda>q. col_g (ideal_gem q)) (1 / 2)
       \<and> isCont (\<lambda>q. col_b (ideal_gem q)) (1 / 2)"
proof -
  have "getGemColor p =
           (if p \<le> 1 / 2 then lerp (Color 0xffffff) (Color 0xff1744) (fl (p * 2))
            else lerp (Color 0xff1744) (Color 0x2979ff) (fl (fl (p - 1 / 2) * 2)))"
    by (simp add: getGemColor_def Let_def crystalColor_def rubyColor_def sapphireColor_def)
  then show ?thesis
    using getGemColor_error [OF assms] getGemColor_0 ideal_gem_values ideal_gem_cont
    by simp
qed

theorem getGemColor_near_interpolation_witness:
  "(0::real) \<le> 1 / 4 \<and> (1 / 4 :: real) \<le> 1
   \<and> \<bar>col_g (getGemColor (1 / 4)) - col_g (ideal_gem (1 / 4))\<bar> \<le> 2 powi (- 50)
   \<and> (0::real) \<le> 3 / 4 \<and> (3 / 4 :: real) \<le> 1
   \<and> \<bar>col_r (getGemColor (3 / 4)) - col_r (ideal_gem (3 / 4))\<bar> \<le> 2 powi (- 50)"
proof -
  have h1: "(0::real) \<le> 1 / 4" "(1 / 4 :: real) \<le> 1"
    and h2: "(0::real) \<le> 3 / 4" "(3 / 4 :: real) \<le> 1"
    by simp_all
  note a = getGemColor_near_interpolation [OF h1]
  note b = getGemColor_near_interpolation [OF h2]
  have g: "\<bar>col_g (getGemColor (1 / 4)) - col_g (ideal_gem (1 / 4))\<bar> \<le> 2 powi (- 50)"
    by (rule conjunct1 [OF conjunct2 [OF conjunct2 [OF a]]])
  have r: "\<bar>col_r (getGemColor (3 / 4)) - col_r (ideal_gem (3 / 4))\<bar> \<le> 2 powi (- 50)"
    by (rule conjunct1 [OF conjunct2 [OF b]])
  show ?thesis
    by (intro conjI h1 h2 g r)
qed

subsection \<open>The scroll progress stays in its range\<close>

lemma updateColorIndicator_progress:
  "scrollProgress (updateColorIndicator p v) = scrollProgress v"
  by (simp add: updateColorIndicator_def Let_def split: option.splits)

lemma updateGemHue_progress:
  "scrollProgress (updateGemHue p v) = scrollProgress v"
  by (simp add: updateGemHue_def Let_def updateColorIndicator_progress)

lemma gem_on_wheel_progress:
  "scrollProgress (gem_on_wheel v e) =
     (if shiftKey e
      then max 0 (min 1 (scrollProgress v + (if deltaY e > 0 then 0.02 else - 0.02)))
      else scrollProgress v)"
proof -
  have sel: "\<And>x. scrollProgress (v\<lparr>scrollProgress := x\<rparr>) = x" by simp
  show ?thesis
    unfolding gem_on_wheel_def Let_def
    by (cases "shiftKey e") (simp_all only: if_True if_False updateGemHue_progress sel)
qed

lemma createGemMaterial_progress:
  "scrollProgress (createGemMaterial h v) = scrollProgress v"
  by (simp add: createGemMaterial_def)

text \<open>
  C2. Starting from the constructor's value 0, after every sequence of wheel events
  handled by the listener on the canvas container (and of materials created in between),
  \<open>scrollProgress\<close> is in \<open>[0, 1]\<close>.
\<close>

theorem scrollProgress_clamped:
  "0 \<le> scrollProgress (foldl gem_step (gem_viewer_new ind) es)
   \<and> scrollProgress (foldl gem_step (gem_viewer_new ind) es) \<le> 1"
proof (induction es rule: rev_induct)
  case Nil
  show ?case by (simp add: gem_viewer_new_def)
next
  case (snoc e es)
  then show ?case
    by (cases e) (simp_all add: gem_on_wheel_progress createGemMaterial_progress)
qed

subsection \<open>The film thickness stays in its range and reaches every material\<close>

lemma updateFilmThickness_thickness [simp]:
  "filmThickness (updateFilmThickness t v) = t"
  by (simp add: updateFilmThickness_def updateThicknessIndicator_def)

lemma updateFilmThickness_materials:
  "iridescenceMaterials (updateFilmThickness t v) =
     map (\<lambda>material. case userData_fresnelMap material of
              Some fresnelMap \<Rightarrow> material\<lparr> userData_fresnelMap := Some (fresnelMap\<lparr> fm_filmThickness := t \<rparr>) \<rparr>
            | None \<Rightarrow> material) (iridescenceMaterials v)"
  by (simp add: updateFilmThickness_def updateThicknessIndicator_def)

lemma ir_on_wheel_thickness:
  "filmThickness (ir_on_wheel v e) =
     (if shiftKey e then max 200 (min 1000 (filmThickness v + (if deltaY e > 0 then 20 else - 20)))
      else filmThickness v)"
proof -
  have sel: "\<And>x. filmThickness (v\<lparr>filmThickness := x\<rparr>) = x" by simp
  show ?thesis
    unfolding ir_on_wheel_def Let_def
    by (cases "shiftKey e") (simp_all only: if_True if_False updateFilmThickness_thickness sel)
qed

lemma ir_step_has_map:
  "list_all has_map (iridescenceMaterials v) \<Longrightarrow> list_all has_map (iridescenceMaterials (ir_step v ev))"
proof (cases ev)
  case (IrWheel e)
  assume a: "list_all has_map (iridescenceMaterials v)"
  have "iridescenceMaterials (v\<lparr>filmThickness := x\<rparr>) = iridescenceMaterials v" for x by simp
  then show ?thesis using a IrWheel
    by (cases "shiftKey e") (auto simp: ir_on_wheel_def Let_def updateFilmThickness_materials list_all_iff has_map_def split: option.splits)
next
  case IrCreateMaterial
  assume a: "list_all has_map (iridescenceMaterials v)"
  then show ?thesis using IrCreateMaterial
    by (simp add: createIridescenceMaterial_def Let_def has_map_def)
qed

lemma ir_reach_has_map:
  "list_all has_map (iridescenceMaterials (foldl ir_step (ir_viewer_new has_ind) es))"
  by (induction es rule: rev_induct) (simp_all add: ir_viewer_new_def ir_step_has_map)

lemma ir_reach_range:
  "200 \<le> filmThickness (foldl ir_step (ir_viewer_new has_ind) es) \<and> filmThickness (foldl ir_step (ir_viewer_new has_ind) es) \<le> 1000"
proof (induction es rule: rev_induct)
  case Nil show ?case by (simp add: ir_viewer_new_def)
next
  case (snoc e es)
  then show ?case by (cases e) (simp_all add: ir_on_wheel_thickness createIridescenceMaterial_def)
qed

lemma updateFilmThickness_list:
  "list_all has_map xs \<Longrightarrow>
   map (\<lambda>m. map_option fm_filmThickness (userData_fresnelMap m))
     (map (\<lambda>material. case userData_fresnelMap material of
              Some fresnelMap \<Rightarrow> material\<lparr> userData_fresnelMap := Some (fresnelMap\<lparr> fm_filmThickness := t \<rparr>) \<rparr>
            | None \<Rightarrow> material) xs)
     = replicate (length xs) (Some t)"
  by (induction xs) (auto simp: has_map_def)

lemma updateFilmThickness_all:
  "list_all has_map (iridescenceMaterials v) \<Longrightarrow>
   map (\<lambda>m. map_option fm_filmThickness (userData_fresnelMap m)) (iridescenceMaterials (updateFilmThickness t v))
     = replicate (length (iridescenceMaterials v)) (Some t)"
  by (simp only: updateFilmThickness_materials updateFilmThickness_list)

text \<open>
  C9. Under every sequence of wheel events (and of materials created in between) the
  film thickness stays in \<open>[200, 1000]\<close>; a wheel event without Shift leaves the
  viewer as it is; and after \<open>updateFilmThickness t\<close> every stored material has a
  fresnel map whose film thickness is \<open>t\<close>, none being dropped or added.
\<close>

theorem filmThickness_clamped_and_propagated:
  "200 \<le> filmThickness (foldl ir_step (ir_viewer_new has_ind) es)
   \<and> filmThickness (foldl ir_step (ir_viewer_new has_ind) es) \<le> 1000
   \<and> ir_on_wheel v (e\<lparr> shiftKey := False \<rparr>) = v
   \<and> map (\<lambda>m. map_option fm_filmThickness (userData_fresnelMap m))
         (iridescenceMaterials (updateFilmThickness t (foldl ir_step (ir_viewer_new has_ind) es)))
       = replicate (length (iridescenceMaterials (foldl ir_step (ir_viewer_new has_ind) es))) (Some t)"
  using ir_reach_range [of has_ind es] updateFilmThickness_all [OF ir_reach_has_map, of t has_ind es]
  by (simp add: ir_on_wheel_def)

subsection \<open>The easing and the end of a tween\<close>

lemma eased_0: "eased 0 = 0" by (simp add: eased_def)
lemma eased_1: "eased 1 = 1" by (simp add: eased_def)

lemma eased_cont: "isCont eased (1/2)"
proof -
  have eq: "eased = (\<lambda>p. if p \<le> 1/2 then 2 * p * p else 1 - (- 2 * p + 2)\<^sup>2 / 2)"
  proof (rule ext)
    fix p :: real
    show "eased p = (if p \<le> 1/2 then 2 * p * p else 1 - (- 2 * p + 2)\<^sup>2 / 2)"
    proof (cases "p = 1/2")
      case True
      show ?thesis unfolding True by (simp add: eased_def power2_eq_square)
    next
      case False
      then show ?thesis by (auto simp: eased_def)
    qed
  qed
  show ?thesis unfolding eq
    by (rule isCont_If_ge) (auto intro!: tendsto_eq_intros continuous_intros simp: power2_eq_square)
qed

lemma eased_mono:
  assumes "0 \<le> a" "a \<le> b" "b \<le> 1"
  shows "eased a \<le> eased b"
proof -
  consider "b < 1/2" | "a < 1/2" "1/2 \<le> b" | "1/2 \<le> a" by linarith
  then show ?thesis
  proof cases
    case 1
    then have "a < 1/2" using assms by linarith
    moreover have "a * a \<le> b * b" using assms by (intro mult_mono) auto
    ultimately show ?thesis using 1 by (simp add: eased_def)
  next
    case 2
    have "a * a \<le> (1/2) * (1/2)" using assms 2 by (intro mult_mono) auto
    moreover have "(2 - 2 * b) * (2 - 2 * b) \<le> 1 * 1" using assms 2 by (intro mult_mono) auto
    ultimately show ?thesis using 2 by (simp add: eased_def power2_eq_square)
  next
    case 3
    then have "1/2 \<le> b" using assms by linarith
    moreover have "(2 - 2 * b) * (2 - 2 * b) \<le> (2 - 2 * a) * (2 - 2 * a)" using assms 3 by (intro mult_mono) auto
    ultimately show ?thesis using 3 by (simp add: eased_def power2_eq_square)
  qed
qed

lemma blend_one: "blend (Num s) g 1 = Num g" by (simp add: blend_def)
lemma blend_NaN: "blend NaN g k = NaN" by (simp add: blend_def)

lemma startRot_props: "snap_prop (spread_euler e) ''x'' = NaN" "snap_prop (spread_euler e) ''y'' = NaN" "snap_prop (spread_euler e) ''z'' = NaN"
  by (simp_all add: snap_prop_def spread_euler_def)

lemma startPos_props: "snap_prop (spread_vector3 v) ''x'' = vx v" "snap_prop (spread_vector3 v) ''y'' = vy v" "snap_prop (spread_vector3 v) ''z'' = vz v"
  by (simp_all add: snap_prop_def spread_vector3_def)

lemma tween_rotation_NaN:
  "t_rotation tgt = Some g \<Longrightarrow> rotation (fst (tween_frame (tween_capture m tgt t0) now m')) = \<lparr>e_x = NaN, e_y = NaN, e_z = NaN\<rparr>"
  by (cases g) (simp add: tween_frame_def tween_capture_def Let_def startRot_props blend_NaN split: option.splits prod.splits)


lemma tween_progress_end:
  "0 < duration tw \<Longrightarrow> duration tw \<le> now - startTime tw \<Longrightarrow> tween_progress tw now = 1"
  by (simp add: tween_progress_def min_def)

lemma tween_end_position:
  assumes "t_position tgt = Some (tx, ty, tz)"
    and "position m = \<lparr> vx = Num a, vy = Num b, vz = Num c \<rparr>"
    and "tween_progress (tween_capture m tgt t0) now = 1"
  shows "position (fst (tween_frame (tween_capture m tgt t0) now m')) =
           \<lparr> vx = Num tx, vy = Num ty, vz = Num tz \<rparr>"
proof -
  have "target (tween_capture m tgt t0) = tgt"
    and "startPos (tween_capture m tgt t0) = spread_vector3 (position m)"
    by (simp_all add: tween_capture_def)
  then show ?thesis
    using assms
    by (simp add: tween_frame_def Let_def startPos_props eased_1 blend_one
        split: option.splits prod.splits)
qed

lemma tween_end_scale:
  assumes "t_scale tgt = Some ts" and "ts \<noteq> 0"
    and "vx (scale m) = Num a"
    and "tween_progress (tween_capture m tgt t0) now = 1"
  shows "scale (fst (tween_frame (tween_capture m tgt t0) now m')) =
           \<lparr> vx = Num ts, vy = Num ts, vz = Num ts \<rparr>"
proof -
  have "target (tween_capture m tgt t0) = tgt"
    and "startScale (tween_capture m tgt t0) = vx (scale m)"
    by (simp_all add: tween_capture_def)
  then show ?thesis
    using assms
    by (simp add: tween_frame_def Let_def eased_1 blend_one split: option.splits prod.splits)
qed

lemma controller_new_torus: "models controller_new ''mainTorus'' = Some torus0"
  by (simp add: controller_new_def createGeometry_def new_mesh_def torus0_def)

text \<open>
  C3. The easing maps 0 to 0 and 1 to 1, is continuous at 1/2 and nondecreasing on
  \<open>[0, 1]\<close> (lemmas \<open>eased_0\<close>, \<open>eased_1\<close>, \<open>eased_cont\<close>,
  \<open>eased_mono\<close>), and at progress 1 the position and the scale are the target's
  (lemmas \<open>tween_end_position\<close>, \<open>tween_end_scale\<close>). The rotation is not: the
  snapshot \<open>{ ...model.rotation }\<close> has the properties \<open>_x\<close>, \<open>_y\<close>,
  \<open>_z\<close> and no \<open>x\<close>, \<open>y\<close>, \<open>z\<close>, so every frame writes \<open>NaN\<close>
  into the rotation. Here the torus, as the loader registers it, is sent to the pose of
  the section \<open>about\<close> and the frame runs 1000 ms after the start: the progress is 1,
  position and scale are the target's, and the rotation is \<open>NaN\<close> where the target
  says \<open>(0.5, 0.5, 0)\<close>.
\<close>

theorem tween_end_rotation_is_NaN:
  "tween_progress (tween_capture torus0 about_target 0) 1000 = 1
   \<and> tween_frame (tween_capture torus0 about_target 0) 1000 torus0 =
       (\<lparr> position = \<lparr> vx = Num 2, vy = Num 0, vz = Num (- 2) \<rparr>,
          rotation = \<lparr> e_x = NaN, e_y = NaN, e_z = NaN \<rparr>,
          scale = \<lparr> vx = Num 1, vy = Num 1, vz = Num 1 \<rparr> \<rparr>, False)"
  by (simp add: tween_progress_def tween_capture_def about_target_def torus0_def
      tween_frame_def Let_def eased_1 blend_def snap_prop_def spread_vector3_def
      spread_euler_def)

subsection \<open>Section changes start the tweens\<close>

text \<open>
  What a section change starts. With the torus \<open>mainTorus\<close> registered,
  \<open>onSectionChange\<close> records the section and, for \<open>home\<close>, \<open>about\<close>,
  \<open>projects\<close> and \<open>contact\<close>, starts exactly one tween of that torus, with the
  literal target of the section and duration 1000, and runs its first frame. For any
  other section id no tween is started and no model is touched.
\<close>

lemma onSectionChange_dispatch:
  assumes "models c ''mainTorus'' = Some m"
  shows "onSectionChange sectionId t0 t1 c =
     (let c1 = c\<lparr> currentSection := sectionId,
                  console_log := console_log c @ [''Section changed to: '' @ sectionId] \<rparr>;
          pose = (if sectionId = ''home'' then
                    Some \<lparr> t_position = Some (0, 0, 0), t_rotation = Some (0, 0, 0),
                           t_scale = Some 1.5, t_duration = Some 1000 \<rparr>
                  else if sectionId = ''about'' then
                    Some \<lparr> t_position = Some (2, 0, - 2), t_rotation = Some (0.5, 0.5, 0),
                           t_scale = Some 1, t_duration = Some 1000 \<rparr>
                  else if sectionId = ''projects'' then
                    Some \<lparr> t_position = Some (- 2, 1, - 1), t_rotation = Some (0, 1, 0),
                           t_scale = Some 1, t_duration = Some 1000 \<rparr>
                  else if sectionId = ''contact'' then
                    Some \<lparr> t_position = Some (0, - 1, - 3), t_rotation = Some (0, 0, 0.5),
                           t_scale = Some 0.8, t_duration = Some 1000 \<rparr>
                  else None)
      in case pose of
           None \<Rightarrow> c1
         | Some tgt \<Rightarrow>
             (let tw = \<lparr> startPos = spread_vector3 (position m),
                         startRot = spread_euler (rotation m),
                         startScale = vx (scale m), startTime = t0, duration = 1000,
                         target = tgt \<rparr>
              in c1\<lparr> models := (models c)(''mainTorus'' \<mapsto> fst (tween_frame tw t1 m)),
                     running := running c @ (if snd (tween_frame tw t1 m)
                                             then [(''mainTorus'', tw)] else []) \<rparr>))"
  using assms
  by (simp add: onSectionChange_def Let_def animateHome_def animateAbout_def
      animateProjects_def animateContact_def getModel_def animateModelTo_def
      tween_capture_def home_target_def about_target_def projects_target_def contact_target_def)


text \<open>
  The first frame runs inside the call and, as every later frame, writes \<open>NaN\<close> into
  the rotation.
\<close>

lemma onSectionChange_rotation_NaN:
  assumes "models c ''mainTorus'' = Some m"
    and "sectionId = ''home'' \<or> sectionId = ''about'' \<or> sectionId = ''projects''
         \<or> sectionId = ''contact''"
  shows "map_option rotation (models (onSectionChange sectionId t0 t1 c) ''mainTorus'') =
           Some \<lparr> e_x = NaN, e_y = NaN, e_z = NaN \<rparr>"
proof -
  have rot: "rotation (fst (tween_frame
      \<lparr> startPos = spread_vector3 (position m), startRot = spread_euler (rotation m),
        startScale = vx (scale m), startTime = t0, duration = 1000, target = tgt \<rparr> t1 m)) =
      \<lparr> e_x = NaN, e_y = NaN, e_z = NaN \<rparr>"
    if "t_rotation tgt = Some g" for tgt g
    using that
    by (cases g) (simp add: tween_frame_def Let_def startRot_props blend_NaN
        split: option.splits prod.splits)
  show ?thesis
    unfolding onSectionChange_dispatch [OF assms(1)] Let_def
    using assms(2) by (auto simp: rot)
qed

text \<open>
  C7. The dispatch is as the claim says (lemma \<open>onSectionChange_dispatch\<close>), but the
  torus is not tweened to the pose: for each of the four sections the rotation of
  \<open>mainTorus\<close> is \<open>NaN\<close> as soon as \<open>onSectionChange\<close> returns, where the
  poses say \<open>(0, 0, 0)\<close>, \<open>(0.5, 0.5, 0)\<close>, \<open>(0, 1, 0)\<close> and
  \<open>(0, 0, 0.5)\<close>, and it stays so in every later frame of the tween (lemma
  \<open>tween_rotation_NaN\<close>). The cause is the snapshot of the rotation, as for C3.
\<close>

theorem section_change_rotation_is_NaN:
  "map_option rotation (models (onSectionChange ''home'' 0 0 controller_new) ''mainTorus'') =
     Some \<lparr> e_x = NaN, e_y = NaN, e_z = NaN \<rparr>
   \<and> map_option rotation (models (onSectionChange ''about'' 0 0 controller_new) ''mainTorus'') =
     Some \<lparr> e_x = NaN, e_y = NaN, e_z = NaN \<rparr>
   \<and> map_option rotation (models (onSectionChange ''projects'' 0 0 controller_new) ''mainTorus'') =
     Some \<lparr> e_x = NaN, e_y = NaN, e_z = NaN \<rparr>
   \<and> map_option rotation (models (onSectionChange ''contact'' 0 0 controller_new) ''mainTorus'') =
     Some \<lparr> e_x = NaN, e_y = NaN, e_z = NaN \<rparr>"
  by (simp add: onSectionChange_rotation_NaN [OF controller_new_torus])

subsection \<open>The burger menu\<close>

lemma toggle_twice: "classList_toggle c (classList_toggle c cl) = cl"
  by (auto simp: classList_toggle_def)

lemma burger_twice: "fst (burger_click (fst (burger_click p))) = p"
  by (cases "burger p"; cases "nav p") (simp_all add: burger_click_def toggle_twice)

text \<open>
  C8. Two burger clicks in a row leave the page as it was, so the menu's \<open>active\<close>
  class and the burger's \<open>toggle\<close> class are back in their prior state; and on a page
  that has the menu and the burger, a click on a nav link ends without error with
  \<open>active\<close> removed from the menu and \<open>toggle\<close> from the burger, whatever the
  classes were before.
\<close>

theorem burger_involution_link_closes:
  "fst (burger_click (fst (burger_click p))) = p
   \<and> (nav p = Some n \<longrightarrow> burger p = Some b \<longrightarrow>
        link_click p =
          (p\<lparr> nav := Some (n - {''active''}), burger := Some (b - {''toggle''}) \<rparr>, None)
        \<and> ''active'' \<notin> n - {''active''} \<and> ''toggle'' \<notin> b - {''toggle''})"
  by (simp add: burger_twice link_click_def classList_remove_def)

theorem burger_involution_link_closes_witness:
  "nav menu_open_page = Some {''active'', ''nav-links''}
   \<and> burger menu_open_page = Some {''toggle''}
   \<and> link_click menu_open_page =
       (menu_open_page\<lparr> nav := Some {''nav-links''}, burger := Some {} \<rparr>, None)"
proof -
  have n: "nav menu_open_page = Some {''active'', ''nav-links''}"
    and b: "burger menu_open_page = Some {''toggle''}"
    by (simp_all add: menu_open_page_def)
  have eq: "{''active'', ''nav-links''} - {''active''} = {''nav-links''}" by auto
  show ?thesis
    using burger_involution_link_closes
      [of menu_open_page "{''active'', ''nav-links''}" "{''toggle''}"] n b
    by (simp add: eq)
qed

subsection \<open>The active nav link\<close>

lemma scroll_current_spec:
  "scroll_current w secs = (case last_reached w secs of None \<Rightarrow> Some '''' | Some s \<Rightarrow> sec_id s)"
proof (induction secs rule: rev_induct)
  case Nil
  show ?case by (simp add: scroll_current_def last_reached_def)
next
  case (snoc s secs)
  have step: "scroll_current w (secs @ [s]) =
      (if pageYOffset w \<ge> offsetTop s - 200 then sec_id s else scroll_current w secs)"
    by (simp add: scroll_current_def)
  show ?case
  proof (cases "reached w s")
    case True
    have "last_reached w (secs @ [s]) = Some s"
      using True by (cases "filter (reached w) secs") (simp_all add: last_reached_def)
    with True show ?thesis unfolding step by (simp add: reached_def)
  next
    case False
    then have "last_reached w (secs @ [s]) = last_reached w secs"
      by (simp add: last_reached_def)
    with False show ?thesis unfolding step using snoc by (simp add: reached_def)
  qed
qed

lemma template_current: "template_hash (scroll_current w secs) = ''#'' @ current_text w secs"
  by (simp add: scroll_current_spec template_hash_def current_text_def split: option.splits)

text \<open>
  C5, as stated, fails: on a page scrolled to the top whose only section starts 500
  pixels down, no section satisfies the condition, and the nav link whose \<open>href\<close> is
  \<open>#\<close> gets the class \<open>active\<close>.
\<close>

theorem active_link_counterexample:
  "filter (reached cx_window) (sections cx_page) = []
   \<and> last_reached cx_window (sections cx_page) = None
   \<and> ''active'' \<in> link_classes (navLinks (fst (on_scroll cx_window cx_page)) ! 0)"
  by (simp add: cx_window_def cx_page_def reached_def last_reached_def on_scroll_def
      scroll_current_def scroll_link_def template_hash_def classList_add_def
      classList_remove_def Let_def)

text \<open>
  C5, amended. After every scroll event the nav links are the same links in the same
  order, and \<open>active\<close> is on exactly those whose \<open>href\<close> is \<open>#\<close> followed by
  the \<open>id\<close> of the last section, in document order, with
  \<open>pageYOffset \<ge> offsetTop - 200\<close>, or \<open>#\<close> alone when no section satisfies the
  condition; it is removed from every other nav link.
\<close>

theorem active_link_after_scroll:
  "navLinks (fst (on_scroll w p)) =
     map (\<lambda>l. l\<lparr> link_classes :=
                   (if href l = Some (''#'' @ current_text w (sections p))
                    then insert ''active'' (link_classes l)
                    else link_classes l - {''active''}) \<rparr>)
         (navLinks p)"
proof -
  have "navLinks (fst (on_scroll w p)) = map (scroll_link (scroll_current w (sections p))) (navLinks p)"
    by (simp add: on_scroll_def Let_def split: option.splits)
  moreover have "scroll_link (scroll_current w (sections p)) = (\<lambda>l. l\<lparr> link_classes :=
                   (if href l = Some (''#'' @ current_text w (sections p))
                    then insert ''active'' (link_classes l)
                    else link_classes l - {''active''}) \<rparr>)"
    by (rule ext) (auto simp: scroll_link_def Let_def template_current classList_add_def classList_remove_def)
  ultimately show ?thesis by simp
qed

subsection \<open>The contact form\<close>

text \<open>
  C6. The submit handler issues no network request. It first prevents the default
  submission; when the three fields exist it reads their values, logs them, shows the
  alert and resets the form, in this order, and nothing else.
\<close>

theorem submit_is_local:
  "list_all (\<lambda>e. \<not> is_network e) (fst (snd (on_submit p)))
   \<and> hd (fst (snd (on_submit p))) = PreventDefault
   \<and> (name_input p = Some n \<longrightarrow> email_input p = Some e \<longrightarrow> message_input p = Some m \<longrightarrow>
        on_submit p =
          (form_reset p,
           [PreventDefault,
            ConsoleLog ''Form submitted:'' (el_value n, el_value e, el_value m),
            Alert ''Thank you for your message! I will get back to you soon.'',
            FormReset],
           None))"
  by (simp add: on_submit_def Let_def split: option.splits)

theorem submit_is_local_witness:
  "name_input filled_form \<noteq> None \<and> email_input filled_form \<noteq> None
   \<and> message_input filled_form \<noteq> None
   \<and> fst (snd (on_submit filled_form)) =
       [PreventDefault,
        ConsoleLog ''Form submitted:'' (''Ada'', ''ada@example.org'', ''Hello''),
        Alert ''Thank you for your message! I will get back to you soon.'',
        FormReset]
   \<and> map_option el_value (name_input (fst (on_submit filled_form))) = Some []"
  using submit_is_local
    [of filled_form
        "\<lparr> el_value = ''Ada'', el_defaultValue = [], el_in_form = True \<rparr>"
        "\<lparr> el_value = ''ada@example.org'', el_defaultValue = [], el_in_form = True \<rparr>"
        "\<lparr> el_value = ''Hello'', el_defaultValue = [], el_in_form = True \<rparr>"]
  by (simp add: filled_form_def form_reset_def reset_input_def)

subsection \<open>The fallback when the model fails to load\<close>

lemma small_cubes_kinds:
  "kind (small_cubes i mat lm g) = kind g
   \<and> map kind (children (small_cubes i mat lm g)) =
       map kind (children g) @ concat (replicate (4 - i) [Mesh, LineSegments])"
proof (induction i mat lm g rule: small_cubes.induct)
  case (1 i mat lm g)
  show ?case
  proof (cases "i < 4")
    case True
    then have rep: "replicate (4 - i) [Mesh, LineSegments] =
        [Mesh, LineSegments] # replicate (4 - (i + 1)) [Mesh, LineSegments]"
      by (cases "4 - i") (simp_all add: Suc_diff_Suc)
    obtain k ge m cs rs p s ch where g: "g = SceneObject k ge m cs rs p s ch"
      by (cases g)
    show ?thesis
      using True "1.IH" [OF True refl refl refl refl refl refl refl refl refl refl refl]
      unfolding rep
      by (subst (1 2) small_cubes.simps)
         (simp add: Let_def g new_Mesh_def new_LineSegments_def)
  next
    case False
    then show ?thesis by (subst (1 2) small_cubes.simps) simp
  qed
qed

lemma default_group_kinds:
  "kind default_group = Group
   \<and> map kind (children default_group) =
       [Mesh, LineSegments, Mesh, LineSegments, Mesh, LineSegments, Mesh, LineSegments,
        Mesh, LineSegments]"
proof -
  have four: "concat (replicate (4 - 0) [Mesh, LineSegments]) =
      [Mesh, LineSegments, Mesh, LineSegments, Mesh, LineSegments, Mesh, LineSegments]"
    by (simp add: numeral_eq_Suc)
  show ?thesis
    unfolding default_group_def Let_def
    by (simp only: small_cubes_kinds four)
       (simp add: new_Group_def new_Mesh_def new_LineSegments_def)
qed

lemma advance_single:
  "timers v = [(d, HideLoadingScreen)] \<Longrightarrow> loadingScreen v = Some cl \<Longrightarrow>
   loadingScreen (advance t v) = Some (if t < d then cl else insert ''hidden'' cl)"
  by (simp add: advance_def Let_def classList_add_def)

text \<open>
  C4. On a page that has the loading text and the loading screen, when the loader
  reports failure the error callback ends without error: it logs, sets the loading text
  to \<open>Loading default geometry...\<close>, makes the placeholder (a group of five meshes
  and their five edge outlines) the viewer's model and adds it to the scene, and sets one
  timeout of 1000 ms whose callback adds the class \<open>hidden\<close> to the loading screen,
  so the class is absent before 1000 ms have passed and present from then on. The text
  is not \<open>Model Loaded!\<close> and the progress bar is untouched: nothing of the
  success path has happened.
\<close>

theorem load_failure_fallback:
  assumes "loadingText v = Some txt" and "loadingScreen v = Some cl" and "timers v = []"
  shows "loadModel Failed v =
           (v\<lparr> viewer_console := viewer_console v @
                   [''Custom model not found, loading default geometry''],
                 loadingText := Some ''Loading default geometry...'',
                 model := Some default_group,
                 scene := scene v @ [default_group],
                 timers := [(1000, HideLoadingScreen)] \<rparr>, None)
         \<and> kind default_group = Group
         \<and> map kind (children default_group) =
             [Mesh, LineSegments, Mesh, LineSegments, Mesh, LineSegments, Mesh, LineSegments,
              Mesh, LineSegments]
         \<and> loadingScreen (advance t (fst (loadModel Failed v))) =
             Some (if t < 1000 then cl else insert ''hidden'' cl)
         \<and> loadingText (fst (loadModel Failed v)) \<noteq> Some ''Model Loaded!''
         \<and> progressBar (fst (loadModel Failed v)) = progressBar v"
proof -
  have res: "loadModel Failed v =
           (v\<lparr> viewer_console := viewer_console v @
                   [''Custom model not found, loading default geometry''],
                 loadingText := Some ''Loading default geometry...'',
                 model := Some default_group,
                 scene := scene v @ [default_group],
                 timers := [(1000, HideLoadingScreen)] \<rparr>, None)"
    using assms by (simp add: on_load_error_def loadDefaultGeometry_def Let_def)
  have "loadingScreen (advance t (fst (loadModel Failed v))) =
             Some (if t < 1000 then cl else insert ''hidden'' cl)"
    unfolding res using assms by (intro advance_single) simp_all
  moreover have "loadingText (fst (loadModel Failed v)) \<noteq> Some ''Model Loaded!''"
    unfolding res by simp
  moreover have "progressBar (fst (loadModel Failed v)) = progressBar v"
    unfolding res by simp
  ultimately show ?thesis using res default_group_kinds by simp
qed

theorem load_failure_fallback_witness:
  "loadingText loading_viewer = Some ''Loading 3D Model...''
   \<and> loadingScreen loading_viewer = Some {''loading-screen''}
   \<and> timers loading_viewer = []
   \<and> model (fst (loadModel Failed loading_viewer)) = Some default_group
   \<and> snd (loadModel Failed loading_viewer) = None
   \<and> loadingScreen (advance 999 (fst (loadModel Failed loading_viewer))) = Some {''loading-screen''}
   \<and> loadingScreen (advance 1000 (fst (loadModel Failed loading_viewer))) = Some {''hidden'', ''loading-screen''}"
proof -
  have a: "loadingText loading_viewer = Some ''Loading 3D Model...''"
    and b: "loadingScreen loading_viewer = Some {''loading-screen''}"
    and c: "timers loading_viewer = []"
    by (simp_all add: loading_viewer_def)
  note r1 = load_failure_fallback [OF a b c, of 999] and r2 = load_failure_fallback [OF a b c, of 1000]
  have s1: "loadingScreen (advance 999 (fst (loadModel Failed loading_viewer))) =
      Some (if (999::nat) < 1000 then {''loading-screen''} else insert ''hidden'' {''loading-screen''})"
    by (rule conjunct1 [OF conjunct2 [OF conjunct2 [OF conjunct2 [OF r1]]]])
  have s2: "loadingScreen (advance 1000 (fst (loadModel Failed loading_viewer))) =
      Some (if (1000::nat) < 1000 then {''loading-screen''} else insert ''hidden'' {''loading-screen''})"
    by (rule conjunct1 [OF conjunct2 [OF conjunct2 [OF conjunct2 [OF r2]]]])
  have m: "model (fst (loadModel Failed loading_viewer)) = Some default_group"
    "snd (loadModel Failed loading_viewer) = None"
    unfolding conjunct1 [OF r1] by simp_all
  show ?thesis
    unfolding s1 s2 m using a b c by simp
qed

subsection \<open>Each lazy image is loaded in one delivery\<close>

lemma observer_callback_Cons:
  "observer_callback ((t, b) # entries) L =
     observer_callback entries (if b then unobserve t (loadImage t L) else L)"
  by (simp add: observer_callback_def)

lemma observer_callback_fold:
  "loads_once L \<Longrightarrow> distinct (map fst (filter snd entries)) \<Longrightarrow>
   fst ` set (filter snd entries) \<subseteq> set (observed L) \<Longrightarrow>
   loads_once (observer_callback entries L)"
proof (induction entries arbitrary: L)
  case Nil
  then show ?case by (simp add: observer_callback_def)
next
  case (Cons en entries)
  obtain t b where en: "en = (t, b)" by (cases en)
  note rest = observer_callback_Cons [of t b entries L]
  show ?case
  proof (cases b)
    case False
    with Cons show ?thesis unfolding en rest by simp
  next
    case True
    let ?L = "unobserve t (loadImage t L)"
    from Cons.prems True have t: "t \<in> set (observed L)" "t \<notin> fst ` set (filter snd entries)"
      and d: "distinct (map fst (filter snd entries))"
      and a: "fst ` set (filter snd entries) \<subseteq> set (observed L)"
      by (auto simp: en)
    have "loads_once ?L"
      using Cons.prems(1) t(1) by (auto simp: loads_once_def unobserve_def loadImage_def Let_def)
    moreover have "fst ` set (filter snd entries) \<subseteq> set (observed ?L)"
      using a t(2) by (auto simp: unobserve_def loadImage_def Let_def)
    ultimately show ?thesis unfolding en rest using True d Cons.IH by simp
  qed
qed

lemma observer_callback_unobserved:
  "set (map fst (tempImgs L)) \<inter> set (observed L) = {} \<Longrightarrow>
   set (map fst (tempImgs (observer_callback entries L)))
     \<inter> set (observed (observer_callback entries L)) = {}"
proof (induction entries arbitrary: L)
  case Nil
  then show ?case by (simp add: observer_callback_def)
next
  case (Cons en entries)
  obtain t b where en: "en = (t, b)" by (cases en)
  have "set (map fst (tempImgs (unobserve t (loadImage t L))))
          \<inter> set (observed (unobserve t (loadImage t L))) = {}"
    using Cons.prems by (auto simp: unobserve_def loadImage_def Let_def)
  with Cons show ?case unfolding en observer_callback_Cons by (cases b) simp_all
qed

lemma observer_callback_other:
  "i \<notin> fst ` set entries \<Longrightarrow>
   count_list (map fst (tempImgs (observer_callback entries L))) i =
     count_list (map fst (tempImgs L)) i"
proof (induction entries arbitrary: L)
  case Nil
  then show ?case by (simp add: observer_callback_def)
next
  case (Cons en entries)
  obtain t b where en: "en = (t, b)" by (cases en)
  have "count_list (map fst (tempImgs (unobserve t (loadImage t L)))) i =
      count_list (map fst (tempImgs L)) i"
    using Cons.prems by (simp add: en unobserve_def loadImage_def Let_def)
  with Cons show ?case unfolding en observer_callback_Cons by (cases b) simp_all
qed

lemma observer_callback_observed:
  "set (observed (observer_callback entries L)) \<subseteq> set (observed L)"
proof (induction entries arbitrary: L)
  case Nil
  show ?case by (simp add: observer_callback_def)
next
  case (Cons en entries)
  obtain t b where en: "en = (t, b)" by (cases en)
  have "set (observed (unobserve t (loadImage t L))) \<subseteq> set (observed L)"
    by (auto simp: unobserve_def loadImage_def Let_def)
  with Cons.IH show ?case unfolding en observer_callback_Cons by (cases b) force+
qed

lemma temp_onload_same:
  "tempImgs (temp_onload k L) = tempImgs L \<and> observed (temp_onload k L) = observed L"
  by (simp add: temp_onload_def Let_def split: prod.splits)

lemma temp_onerror_same:
  "tempImgs (temp_onerror k L) = tempImgs L \<and> observed (temp_onerror k L) = observed L"
  by (simp add: temp_onerror_def Let_def split: prod.splits)

lemma img_step_cases:
  assumes "img_step L ev = Some L'"
  shows "(\<exists>entries. ev = Deliver entries \<and> deliverable entries L
            \<and> L' = observer_callback entries L)
         \<or> (tempImgs L' = tempImgs L \<and> observed L' = observed L)"
  using assms
  by (cases ev) (auto simp: temp_onload_same temp_onerror_same split: if_splits)

lemma img_step_unobserved:
  assumes "set (map fst (tempImgs L)) \<inter> set (observed L) = {}"
    and "img_step L ev = Some L'"
  shows "set (map fst (tempImgs L')) \<inter> set (observed L') = {}"
  using img_step_cases [OF assms(2)]
proof
  assume "\<exists>entries. ev = Deliver entries \<and> deliverable entries L
      \<and> L' = observer_callback entries L"
  then obtain entries where "L' = observer_callback entries L" by blast
  then show ?thesis using observer_callback_unobserved [OF assms(1)] by simp
next
  assume "tempImgs L' = tempImgs L \<and> observed L' = observed L"
  then show ?thesis using assms(1) by simp
qed

lemma img_run_unobserved:
  "set (map fst (tempImgs L)) \<inter> set (observed L) = {} \<Longrightarrow> img_run L evs = Some L' \<Longrightarrow>
   set (map fst (tempImgs L')) \<inter> set (observed L') = {}"
proof (induction evs arbitrary: L)
  case Nil
  then show ?case by simp
next
  case (Cons ev evs)
  then obtain L1 where 1: "img_step L ev = Some L1" and 2: "img_run L1 evs = Some L'"
    by (auto split: option.splits)
  from Cons.IH [OF img_step_unobserved [OF Cons.prems(1) 1] 2] show ?case .
qed

lemma img_step_not_again:
  assumes "i \<notin> set (observed L)" and "img_step L ev = Some L'"
  shows "count_list (map fst (tempImgs L')) i = count_list (map fst (tempImgs L)) i
         \<and> i \<notin> set (observed L')"
  using img_step_cases [OF assms(2)]
proof
  assume "\<exists>entries. ev = Deliver entries \<and> deliverable entries L
      \<and> L' = observer_callback entries L"
  then obtain entries where d: "deliverable entries L"
    and L': "L' = observer_callback entries L" by blast
  from d assms(1) have "i \<notin> fst ` set entries"
    by (auto simp: deliverable_def list_all_iff)
  then show ?thesis
    unfolding L' using observer_callback_other [of i entries L]
      observer_callback_observed [of entries L] assms(1) by auto
next
  assume "tempImgs L' = tempImgs L \<and> observed L' = observed L"
  then show ?thesis using assms(1) by simp
qed

lemma img_run_not_again:
  "i \<notin> set (observed L) \<Longrightarrow> img_run L evs = Some L' \<Longrightarrow>
   count_list (map fst (tempImgs L')) i = count_list (map fst (tempImgs L)) i"
proof (induction evs arbitrary: L)
  case Nil
  then show ?case by simp
next
  case (Cons ev evs)
  then obtain L1 where 1: "img_step L ev = Some L1" and 2: "img_run L1 evs = Some L'"
    by (auto split: option.splits)
  from img_step_not_again [OF Cons.prems(1) 1] Cons.IH [OF _ 2] show ?case by simp
qed

lemma img_step_loads_once:
  assumes "loads_once L" and "single_report ev" and "img_step L ev = Some L'"
  shows "loads_once L'"
  using img_step_cases [OF assms(3)]
proof
  assume "\<exists>entries. ev = Deliver entries \<and> deliverable entries L
      \<and> L' = observer_callback entries L"
  then obtain entries where ev: "ev = Deliver entries" and d: "deliverable entries L"
    and L': "L' = observer_callback entries L" by blast
  from ev assms(2) have s: "distinct (map fst (filter snd entries))" by simp
  from d have "fst ` set (filter snd entries) \<subseteq> set (observed L)"
    by (auto simp: deliverable_def list_all_iff)
  with assms(1) s show ?thesis unfolding L' by (intro observer_callback_fold)
next
  assume "tempImgs L' = tempImgs L \<and> observed L' = observed L"
  then show ?thesis using assms(1) by (simp add: loads_once_def)
qed

lemma img_run_loads_once:
  "loads_once L \<Longrightarrow> list_all single_report evs \<Longrightarrow> img_run L evs = Some L' \<Longrightarrow> loads_once L'"
proof (induction evs arbitrary: L)
  case Nil
  then show ?case by simp
next
  case (Cons ev evs)
  then obtain L1 where 1: "img_step L ev = Some L1" and 2: "img_run L1 evs = Some L'"
    by (auto split: option.splits)
  from Cons.prems(2) have s: "single_report ev" "list_all single_report evs" by simp_all
  from Cons.IH [OF img_step_loads_once [OF Cons.prems(1) s(1) 1] s(2) 2] show ?case .
qed

lemma loadAllImages_temp:
  "tempImgs (foldl (\<lambda>L i. loadImage i L) L xs) =
     tempImgs L @ map (\<lambda>i. (i, if i < length (elements L) then data_src (elements L ! i) else None)) xs
   \<and> elements (foldl (\<lambda>L i. loadImage i L) L xs) = elements L
   \<and> observed (foldl (\<lambda>L i. loadImage i L) L xs) = observed L"
  by (induction xs arbitrary: L) (simp_all add: loadImage_def Let_def)

lemma setupImages_loads_once: "loads_once (setupImages doc has_observer)"
  by (auto simp: setupImages_def Let_def loads_once_def loadAllImages_def loadAllImages_temp comp_def)

lemma temp_onload_effect:
  assumes "can_settle k L"
  shows "data_src (elements (temp_onload k L) ! fst (tempImgs L ! k)) = None
     \<and> ''loaded'' \<in> img_classes (elements (temp_onload k L) ! fst (tempImgs L ! k))
     \<and> img_src (elements (temp_onload k L) ! fst (tempImgs L ! k)) = snd (tempImgs L ! k)"
proof -
  obtain i s where ks: "tempImgs L ! k = (i, s)" by (cases "tempImgs L ! k")
  with assms have "i < length (elements L)" by (simp add: can_settle_def)
  then show ?thesis
    by (simp add: ks temp_onload_def Let_def classList_add_def)
qed

text \<open>
  C10, as stated, fails: the callback does not look for repetitions, so when one
  delivery reports the first image of the gallery, which has a \<open>data-src\<close>, as
  intersecting twice, \<open>loadImage\<close> runs twice for it.
\<close>

theorem image_loaded_twice_counterexample:
  "data_src (gallery ! 0) = Some ''a.jpg''
   \<and> map_option (map fst \<circ> tempImgs)
        (img_run (setupImages gallery True) [Deliver [(0, True), (0, True)]]) = Some [0, 0]"
  by (simp add: gallery_def setupImages_def Let_def deliverable_def observer_callback_def
      unobserve_def loadImage_def upt_conv_Cons)

text \<open>
  C10, amended. In every run of the loader, with or without
  \<open>IntersectionObserver\<close>: an image that has been passed to \<open>loadImage\<close> is no
  longer observed, and nothing that happens later passes it to \<open>loadImage\<close> again;
  so all the calls for one image come from the entries of one delivery, and no image is
  passed to \<open>loadImage\<close> twice when no delivery reports the same target as
  intersecting twice. When a temporary image loads, its element loses \<open>data-src\<close>,
  gets the class \<open>loaded\<close> and the full \<open>src\<close>.
\<close>

theorem image_loaded_in_one_delivery:
  assumes "img_run (setupImages doc has_observer) evs = Some L" and "img_run L evs' = Some L'"
  shows "set (map fst (tempImgs L)) \<inter> set (observed L) = {}
     \<and> (i \<in> set (map fst (tempImgs L)) \<longrightarrow>
          count_list (map fst (tempImgs L')) i = count_list (map fst (tempImgs L)) i)
     \<and> (list_all single_report evs \<longrightarrow> distinct (map fst (tempImgs L)))
     \<and> (can_settle k L \<longrightarrow>
          data_src (elements (temp_onload k L) ! fst (tempImgs L ! k)) = None
          \<and> ''loaded'' \<in> img_classes (elements (temp_onload k L) ! fst (tempImgs L ! k))
          \<and> img_src (elements (temp_onload k L) ! fst (tempImgs L ! k)) = snd (tempImgs L ! k))"
proof -
  have s0: "set (map fst (tempImgs (setupImages doc has_observer)))
      \<inter> set (observed (setupImages doc has_observer)) = {}"
    using setupImages_loads_once [of doc has_observer] by (simp add: loads_once_def)
  have u: "set (map fst (tempImgs L)) \<inter> set (observed L) = {}"
    by (rule img_run_unobserved [OF s0 assms(1)])
  have c: "count_list (map fst (tempImgs L')) i = count_list (map fst (tempImgs L)) i"
    if "i \<in> set (map fst (tempImgs L))"
    using that u by (intro img_run_not_again [OF _ assms(2)]) auto
  have d: "distinct (map fst (tempImgs L))" if "list_all single_report evs"
    using img_run_loads_once [OF setupImages_loads_once that assms(1)]
    by (simp add: loads_once_def)
  show ?thesis using u c d temp_onload_effect [of k L] by blast
qed

lemma gallery_run1: "img_run (setupImages gallery True) [Deliver [(0, False), (2, True)]] = Some gallery_mid"
  by (simp add: gallery_mid_def setupImages_def gallery_def Let_def
      deliverable_def observer_callback_def unobserve_def loadImage_def upt_conv_Cons)

lemma gallery_run2: "img_run gallery_mid gallery_rest = Some gallery_after"
  by (simp add: gallery_rest_def gallery_mid_def gallery_after_def gallery_def Let_def
      deliverable_def observer_callback_def unobserve_def loadImage_def can_settle_def
      temp_onload_def classList_add_def)

theorem image_loaded_in_one_delivery_witness:
  "img_run (setupImages gallery True) [Deliver [(0, False), (2, True)]] = Some gallery_mid
   \<and> img_run gallery_mid gallery_rest = Some gallery_after
   \<and> 2 \<in> set (map fst (tempImgs gallery_mid))
   \<and> count_list (map fst (tempImgs gallery_after)) 2 = 1
   \<and> list_all single_report [Deliver [(0, False), (2, True)]]
   \<and> distinct (map fst (tempImgs gallery_mid))
   \<and> can_settle 0 gallery_mid
   \<and> data_src (elements (temp_onload 0 gallery_mid) ! 2) = None
   \<and> ''loaded'' \<in> img_classes (elements (temp_onload 0 gallery_mid) ! 2)"
proof -
  have c: "can_settle 0 gallery_mid"
    by (simp add: can_settle_def gallery_mid_def gallery_def)
  have t: "tempImgs gallery_mid ! 0 = (2, Some ''b.jpg'')"
    "map fst (tempImgs gallery_mid) = [2]"
    by (simp_all add: gallery_mid_def)
  have s: "list_all single_report [Deliver [(0, False), (2, True)]]" by simp
  show ?thesis
    using image_loaded_in_one_delivery [OF gallery_run1 gallery_run2, of 2 0] c t s gallery_run1 gallery_run2
    by simp
qed

end
